theory Spec2Isabelle
  imports Complex_Main "HOL-Library.Sublist" "HOL-Library.AList"
begin

section \<open>Values of the source language\<close>

text \<open>
  The server is JavaScript. Its strings are modelled as \<^typ>\<open>string\<close>, one \<^typ>\<open>char\<close> per
  code unit, which covers the code units below 256. Its numbers are modelled as exact
  reals together with the value \<open>NaN\<close> that \<open>parseFloat\<close> produces; the rounding of IEEE
  doubles is not modelled. A field that can be \<open>undefined\<close> or \<open>null\<close> is an \<open>option\<close>.
\<close>

datatype jsnum = NaN | Num real

fun js_gt :: "jsnum \<Rightarrow> real \<Rightarrow> bool" where
  "js_gt NaN y = False"
| "js_gt (Num x) y = (x > y)"

fun js_le :: "jsnum \<Rightarrow> real \<Rightarrow> bool" where
  "js_le NaN y = False"
| "js_le (Num x) y = (x \<le> y)"

text \<open>Truthiness of a string that may be missing: \<open>undefined\<close>, \<open>null\<close> and \<open>''\<close> are falsy.\<close>

fun truthy_str :: "string option \<Rightarrow> bool" where
  "truthy_str None = False"
| "truthy_str (Some s) = (s \<noteq> [])"

text \<open>\<open>a || b\<close> on a string that may be missing.\<close>

fun str_or :: "string option \<Rightarrow> string \<Rightarrow> string" where
  "str_or None d = d"
| "str_or (Some s) d = (if s = [] then d else s)"

text \<open>\<open>a || b\<close> on a number that may be missing: \<open>undefined\<close> and \<open>0\<close> are falsy.\<close>

fun num_or :: "real option \<Rightarrow> real \<Rightarrow> real" where
  "num_or None d = d"
| "num_or (Some x) d = (if x = 0 then d else x)"

definition toLowerChar :: "char \<Rightarrow> char" where
  "toLowerChar c = (let n = (of_char c :: nat) in
     if (65 \<le> n \<and> n \<le> 90) \<or> (192 \<le> n \<and> n \<le> 222 \<and> n \<noteq> 215)
     then char_of (n + 32) else c)"

text \<open>
  Of the code units below 256, \<open>toUpperCase\<close> sends three (181, 223, 255) outside that
  range or to two letters; none of the results is an ASCII letter, and the model leaves
  these three unchanged.
\<close>

definition toUpperChar :: "char \<Rightarrow> char" where
  "toUpperChar c = (let n = (of_char c :: nat) in
     if (97 \<le> n \<and> n \<le> 122) \<or> (224 \<le> n \<and> n \<le> 254 \<and> n \<noteq> 247)
     then char_of (n - 32) else c)"

definition toLowerCase :: "string \<Rightarrow> string" where
  "toLowerCase s = map toLowerChar s"

definition toUpperCase :: "string \<Rightarrow> string" where
  "toUpperCase s = map toUpperChar s"

text \<open>\<open>s.includes(sub)\<close> and \<open>s.startsWith(p)\<close>.\<close>

fun includes_str :: "string \<Rightarrow> string \<Rightarrow> bool" where
  "includes_str [] sub = (sub = [])"
| "includes_str (c # cs) sub = (prefix sub (c # cs) \<or> includes_str cs sub)"

definition startsWith :: "string \<Rightarrow> string \<Rightarrow> bool" where
  "startsWith s p = prefix p s"

section \<open>Trades and the validity filter\<close>

text \<open>The object that \<open>parseTransaction\<close> builds and \<open>isValidTrade\<close> inspects.\<close>

record trade =
  signature :: "string option"
  timestamp :: "int option"
  kolName :: string
  kolAvatar :: string
  action :: "string option"
  tokenSymbol :: "string option"
  tokenMint :: string
  tokenAmount :: real
  amountSol :: jsnum

definition SOL_MINT :: string where
  "SOL_MINT = ''So11111111111111111111111111111111111111112''"

definition SKIP_TOKENS :: "string list" where
  "SKIP_TOKENS =
    [''SOL'', ''WSOL'', ''USDC'', ''USDT'', ''USDS'', ''USD1'', ''EURC'', ''DAI'', ''FRAX'',
     ''TUSD'', ''BUSD'', ''USDH'', ''UXD'',
     ''mSOL'', ''jitoSOL'', ''bSOL'', ''stSOL'', ''JitoSOL'', ''INF'', ''hSOL'', ''vSOL'',
     ''jupSOL'', ''LST'',
     ''WETH'', ''WBTC'', ''RAY'', ''JLP'', ''JTO'', ''PYTH'', ''JUP'', ''ORCA'', ''MNDE'',
     ''STEP'',
     ''BONK'']"

definition SKIP_MINTS :: "string list" where
  "SKIP_MINTS =
    [''So11111111111111111111111111111111111111112'',
     ''EPjFWdd5AufqSSqeM2qN1xzybapC8G4wEGGkZwyTDt1v'',
     ''Es9vMFrzaCERmJfrF4H2FYD4KCoNkY11McCe8BenwNYB'',
     ''BJUH9GJLaMSLV1E7B3SQLCy9eCfyr6zsrm3WYMFQmpuN'']"

definition isHexChar :: "char \<Rightarrow> bool" where
  "isHexChar c = (c \<in> set ''0123456789abcdefABCDEF'')"

text \<open>The test \<open>/^[a-f0-9]{6,}$/i\<close>: the whole string is six or more hex digits.\<close>

definition looksHex :: "string \<Rightarrow> bool" where
  "looksHex s = (6 \<le> length s \<and> list_all isHexChar s)"

definition isValidTrade :: "trade option \<Rightarrow> bool" where
  "isValidTrade tr =
    (case tr of
       None \<Rightarrow> False
     | Some t \<Rightarrow>
        if \<not> truthy_str (action t) \<or> (action t \<noteq> Some ''Buy'' \<and> action t \<noteq> Some ''Sell'')
        then False
        else (case tokenSymbol t of
                None \<Rightarrow> False
              | Some smb \<Rightarrow>
                 if smb = [] \<or> length smb > 15 then False
                 else if looksHex smb then False
                 else if js_le (amountSol t) 0 then False
                 else if smb \<in> set SKIP_TOKENS then False
                 else if tokenMint t \<noteq> [] \<and> tokenMint t \<in> set SKIP_MINTS then False
                 else True))"

section \<open>The validity filter rejects the deny-lists\<close>

lemma SKIP_MINTS_nonempty: "m \<in> set SKIP_MINTS \<Longrightarrow> m \<noteq> []"
  by (auto simp: SKIP_MINTS_def)

text \<open>
  Claim C3. \<open>isValidTrade\<close> is false for every trade whose token symbol is in
  \<open>SKIP_TOKENS\<close> and for every trade whose token mint is in \<open>SKIP_MINTS\<close>, whatever the
  other fields hold.
\<close>

theorem isValidTrade_rejects_denied:
  assumes "(\<exists>smb. tokenSymbol t = Some smb \<and> smb \<in> set SKIP_TOKENS)
           \<or> tokenMint t \<in> set SKIP_MINTS"
  shows "\<not> isValidTrade (Some t)"
  using assms SKIP_MINTS_nonempty [of "tokenMint t"]
  by (auto simp: isValidTrade_def split: option.splits)

text \<open>
  A well-formed purchase of 1 SOL is valid under the symbol \<open>WIF\<close>, and is rejected once
  its symbol is \<open>USDC\<close> or its mint is the USDC mint.
\<close>

definition sample_trade :: trade where
  "sample_trade =
    \<lparr> signature = Some ''5xSig'', timestamp = Some 1700000000, kolName = ''Ansem'',
      kolAvatar = ''/logo.png'', action = Some ''Buy'', tokenSymbol = Some ''WIF'',
      tokenMint = ''EKpQGSJtjMFqKZ9KQanSqYXRcF8fBopzLHYxdM65zcjm'', tokenAmount = 10,
      amountSol = Num 1 \<rparr>"

lemma sample_trade_valid: "isValidTrade (Some sample_trade)"
  by (simp add: isValidTrade_def sample_trade_def looksHex_def SKIP_TOKENS_def SKIP_MINTS_def)

theorem isValidTrade_rejects_denied_witness:
  "isValidTrade (Some sample_trade)
   \<and> \<not> isValidTrade (Some (sample_trade\<lparr>tokenSymbol := Some ''USDC''\<rparr>))
   \<and> \<not> isValidTrade
        (Some (sample_trade\<lparr>tokenMint := ''EPjFWdd5AufqSSqeM2qN1xzybapC8G4wEGGkZwyTDt1v''\<rparr>))"
proof -
  have a: "\<exists>smb. tokenSymbol (sample_trade\<lparr>tokenSymbol := Some ''USDC''\<rparr>) = Some smb
             \<and> smb \<in> set SKIP_TOKENS"
    by (simp add: SKIP_TOKENS_def)
  have b: "tokenMint (sample_trade\<lparr>tokenMint := ''EPjFWdd5AufqSSqeM2qN1xzybapC8G4wEGGkZwyTDt1v''\<rparr>)
             \<in> set SKIP_MINTS"
    by (simp add: SKIP_MINTS_def)
  show ?thesis
    using sample_trade_valid
      isValidTrade_rejects_denied [of "sample_trade\<lparr>tokenSymbol := Some ''USDC''\<rparr>"] a
      isValidTrade_rejects_denied
        [of "sample_trade\<lparr>tokenMint := ''EPjFWdd5AufqSSqeM2qN1xzybapC8G4wEGGkZwyTDt1v''\<rparr>"] b
    by blast
qed

section \<open>The token cache\<close>

text \<open>
  Table \<open>token_cache\<close>: one row per mint (the primary key). The market columns are
  \<open>REAL\<close>; a bound \<open>NaN\<close> is stored as \<open>NULL\<close>, here \<open>None\<close>. \<open>cached_at\<close> is the clock
  value at the time of the write.
\<close>

record token_row =
  tc_name :: string
  tc_symbol :: string
  tc_image :: string
  mcap :: "real option"
  price_usd :: "real option"
  price_change_24h :: "real option"
  cached_at :: nat

type_synonym token_cache = "string \<rightharpoonup> token_row"

fun bind_real :: "jsnum \<Rightarrow> real option" where
  "bind_real NaN = None"
| "bind_real (Num x) = Some x"

text \<open>\<open>getCachedToken\<close>: \<open>SELECT * FROM token_cache WHERE mint = ?\<close>.\<close>

definition getCachedToken :: "token_cache \<Rightarrow> string \<Rightarrow> token_row option" where
  "getCachedToken cache mint = cache mint"

text \<open>
  \<open>upsertTokenCache\<close>: \<open>INSERT OR REPLACE\<close> of mint, name, symbol, image and the clock. A
  replaced row is deleted first, so its market columns fall back to their default 0.
\<close>

definition upsertTokenCache ::
  "string \<Rightarrow> string \<Rightarrow> string \<Rightarrow> string \<Rightarrow> nat \<Rightarrow> token_cache \<Rightarrow> token_cache" where
  "upsertTokenCache mint nm smb img now cache =
     cache(mint \<mapsto> \<lparr> tc_name = nm, tc_symbol = smb, tc_image = img, mcap = Some 0,
                      price_usd = Some 0, price_change_24h = Some 0, cached_at = now \<rparr>)"

text \<open>
  \<open>upsertTokenMarketData\<close>: \<open>INSERT ... ON CONFLICT(mint) DO UPDATE SET\<close> the three market
  columns and the clock from the new values, and each of name, symbol and image by
  \<open>CASE WHEN excluded.x != '' THEN excluded.x ELSE token_cache.x END\<close>.
\<close>

definition upsertTokenMarketData ::
  "string \<Rightarrow> string \<Rightarrow> string \<Rightarrow> string \<Rightarrow> jsnum \<Rightarrow> jsnum \<Rightarrow> jsnum \<Rightarrow> nat
     \<Rightarrow> token_cache \<Rightarrow> token_cache" where
  "upsertTokenMarketData mint nm smb img mc price change now cache =
     (case cache mint of
        None \<Rightarrow>
          cache(mint \<mapsto> \<lparr> tc_name = nm, tc_symbol = smb, tc_image = img,
                           mcap = bind_real mc, price_usd = bind_real price,
                           price_change_24h = bind_real change, cached_at = now \<rparr>)
      | Some old \<Rightarrow>
          cache(mint \<mapsto> old\<lparr> mcap := bind_real mc,
                              price_usd := bind_real price,
                              price_change_24h := bind_real change,
                              tc_name := (if nm \<noteq> [] then nm else tc_name old),
                              tc_symbol := (if smb \<noteq> [] then smb else tc_symbol old),
                              tc_image := (if img \<noteq> [] then img else tc_image old),
                              cached_at := now \<rparr>))"

section \<open>Token metadata and the symbol resolver\<close>

record token_meta =
  name :: string
  symbol :: string
  image :: string

text \<open>
  The object \<open>tokenMetadataMap\<close>: its entries in enumeration order, each value a metadata
  object or \<open>null\<close>.
\<close>

type_synonym metadata_map = "(string \<times> token_meta option) list"

text \<open>One element of the metadata source's answer, with the fields the code reads.\<close>

record md_token =
  account :: string
  offChain_name :: "string option"
  offChain_symbol :: "string option"
  offChain_image :: "string option"
  onChain_name :: "string option"
  onChain_symbol :: "string option"

datatype md_response = Md_Threw | Md_NotOk | Md_Data "md_token list"

text \<open>The loop over one answer: a token with a symbol is written to the cache.\<close>

fun cacheTokens :: "nat \<Rightarrow> md_token list \<Rightarrow> token_cache \<Rightarrow> token_cache" where
  "cacheTokens now [] cache = cache"
| "cacheTokens now (token # rest) cache =
     (let nm = str_or (offChain_name token) (str_or (onChain_name token) []);
          smb = str_or (offChain_symbol token) (str_or (onChain_symbol token) []);
          img = str_or (offChain_image token) []
      in cacheTokens now rest
           (if smb \<noteq> [] then upsertTokenCache (account token) nm smb img now cache else cache))"

text \<open>
  The loop over chunks of 100 uncached mints. A fetch that throws ends the loop (the
  \<open>catch\<close> is outside it); an answer that is not ok skips its chunk.
\<close>

function fetchChunks ::
  "(string list \<Rightarrow> md_response) \<Rightarrow> nat \<Rightarrow> string list \<Rightarrow> token_cache \<Rightarrow> token_cache" where
  "fetchChunks src now uncached cache =
     (if uncached = [] then cache
      else (case src (take 100 uncached) of
              Md_Threw \<Rightarrow> cache
            | Md_NotOk \<Rightarrow> fetchChunks src now (drop 100 uncached) cache
            | Md_Data data \<Rightarrow>
                fetchChunks src now (drop 100 uncached) (cacheTokens now data cache)))"
  by pat_completeness auto
termination
  by (relation "measure (\<lambda>(src, now, uncached, cache). length uncached)") auto

definition row_meta :: "token_row \<Rightarrow> token_meta" where
  "row_meta cached = \<lparr> name = tc_name cached, symbol = tc_symbol cached, image = tc_image cached \<rparr>"

text \<open>The loop that builds \<open>results\<close>, one assignment \<open>results[mint] = ...\<close> per mint.\<close>

fun buildResults :: "token_cache \<Rightarrow> string list \<Rightarrow> metadata_map \<Rightarrow> metadata_map" where
  "buildResults cache [] results = results"
| "buildResults cache (mint # rest) results =
     buildResults cache rest
       (AList.update mint
          (if mint = SOL_MINT
           then Some \<lparr> name = ''Wrapped SOL'', symbol = ''SOL'', image = [] \<rparr>
           else map_option row_meta (getCachedToken cache mint))
          results)"

text \<open>
  \<open>batchGetTokenMetadata\<close>. \<open>enabled\<close> stands for \<open>HELIUS_ENABLED && HELIUS_API_KEY\<close>, \<open>src\<close>
  for the metadata endpoint. The result is the object returned and the cache after the
  writes.
\<close>

definition batchGetTokenMetadata ::
  "bool \<Rightarrow> (string list \<Rightarrow> md_response) \<Rightarrow> nat \<Rightarrow> token_cache \<Rightarrow> string list
     \<Rightarrow> metadata_map \<times> token_cache" where
  "batchGetTokenMetadata enabled src now cache mints =
     (if \<not> enabled then ([], cache)
      else
        (let uncached = filter (\<lambda>m. if m = SOL_MINT then False
                                      else getCachedToken cache m = None) mints;
             cache' = fetchChunks src now uncached cache
         in (buildResults cache' mints [], cache')))"

text \<open>
  \<open>resolveSymbol\<close>, the helper inside \<open>parseTransaction\<close>; its free variables
  \<open>tokenMetadataMap\<close> and the cache are parameters here.
\<close>

definition resolveSymbol ::
  "metadata_map option \<Rightarrow> token_cache \<Rightarrow> string \<Rightarrow> string option" where
  "resolveSymbol tokenMetadataMap cache mint =
     (if mint = [] \<or> mint = SOL_MINT then None
      else
        (case (case tokenMetadataMap of None \<Rightarrow> None | Some m \<Rightarrow> map_of m mint) of
           Some (Some meta) \<Rightarrow>
             if symbol meta \<noteq> [] \<and> length (symbol meta) \<le> 15 then Some (symbol meta)
             else (case getCachedToken cache mint of
                     Some cached \<Rightarrow> if tc_symbol cached \<noteq> [] then Some (tc_symbol cached) else None
                   | None \<Rightarrow> None)
         | _ \<Rightarrow>
             (case getCachedToken cache mint of
                Some cached \<Rightarrow> if tc_symbol cached \<noteq> [] then Some (tc_symbol cached) else None
              | None \<Rightarrow> None)))"

section \<open>The resolver on the wrapped-SOL mint\<close>

lemma buildResults_SOL:
  "map_of (buildResults cache mints results) SOL_MINT =
     (if SOL_MINT \<in> set mints
      then Some (Some \<lparr> name = ''Wrapped SOL'', symbol = ''SOL'', image = [] \<rparr>)
      else map_of results SOL_MINT)"
  by (induction mints arbitrary: results) (auto simp: update_conv')

definition no_cache :: token_cache where
  "no_cache = Map.empty"

text \<open>
  Claim C6 as stated fails: on the wrapped-SOL mint \<open>resolveSymbol\<close> returns no symbol,
  not \<open>SOL\<close>, also when the metadata map holds the entry of that mint.
\<close>

theorem resolveSymbol_SOL_counterexample:
  "resolveSymbol
     (Some [(SOL_MINT, Some \<lparr> name = ''Wrapped SOL'', symbol = ''SOL'', image = [] \<rparr>)])
     no_cache SOL_MINT = None
   \<and> resolveSymbol (Some []) no_cache SOL_MINT \<noteq> Some ''SOL''"
  by (simp add: resolveSymbol_def)

text \<open>
  Claim C6, amended. For every metadata map and every cache, \<open>resolveSymbol\<close> on the
  wrapped-SOL mint returns no symbol, without reading either. The fixed symbol \<open>SOL\<close> is
  what \<open>batchGetTokenMetadata\<close>, when enabled, records for that mint whenever it is among
  the requested mints, whatever the cache and the metadata source hold.
\<close>

theorem resolveSymbol_SOL_MINT:
  "resolveSymbol tokenMetadataMap cache SOL_MINT = None
   \<and> (enabled \<and> SOL_MINT \<in> set mints \<longrightarrow>
        map_of (fst (batchGetTokenMetadata enabled src now cache mints)) SOL_MINT
          = Some (Some \<lparr> name = ''Wrapped SOL'', symbol = ''SOL'', image = [] \<rparr>))"
  by (simp add: resolveSymbol_def batchGetTokenMetadata_def Let_def buildResults_SOL)

definition failing_source :: "string list \<Rightarrow> md_response" where
  "failing_source chunk = Md_NotOk"

theorem resolveSymbol_SOL_MINT_witness:
  "resolveSymbol (Some [(SOL_MINT, Some \<lparr> name = ''Wrapped SOL'', symbol = ''SOL'', image = [] \<rparr>)])
     no_cache SOL_MINT = None
   \<and> True \<and> SOL_MINT \<in> set [''EKpQGSJtjMFqKZ9KQanSqYXRcF8fBopzLHYxdM65zcjm'', SOL_MINT]
   \<and> map_of (fst (batchGetTokenMetadata True failing_source 0 no_cache
                    [''EKpQGSJtjMFqKZ9KQanSqYXRcF8fBopzLHYxdM65zcjm'', SOL_MINT])) SOL_MINT
       = Some (Some \<lparr> name = ''Wrapped SOL'', symbol = ''SOL'', image = [] \<rparr>)"
  using resolveSymbol_SOL_MINT
    [of "Some [(SOL_MINT, Some \<lparr> name = ''Wrapped SOL'', symbol = ''SOL'', image = [] \<rparr>)]"
        no_cache True "[''EKpQGSJtjMFqKZ9KQanSqYXRcF8fBopzLHYxdM65zcjm'', SOL_MINT]"
        failing_source 0]
  by simp

section \<open>The market-data upsert\<close>

text \<open>
  Claim C7. For a mint that has a row, \<open>upsertTokenMarketData\<close> stores the incoming
  market values in \<open>mcap\<close>, \<open>price_usd\<close> and \<open>price_change_24h\<close>, and keeps the row's
  name, symbol or image wherever the incoming one is the empty string (and stores the
  incoming one otherwise).
\<close>

theorem upsertTokenMarketData_merge:
  assumes "cache mint = Some old"
  shows "\<exists>new. upsertTokenMarketData mint nm smb img mc price change now cache mint = Some new
           \<and> mcap new = bind_real mc
           \<and> price_usd new = bind_real price
           \<and> price_change_24h new = bind_real change
           \<and> tc_name new = (if nm = [] then tc_name old else nm)
           \<and> tc_symbol new = (if smb = [] then tc_symbol old else smb)
           \<and> tc_image new = (if img = [] then tc_image old else img)"
  using assms by (simp add: upsertTokenMarketData_def)

definition foo_cache :: token_cache where
  "foo_cache = upsertTokenCache ''MintFoo'' ''Foo'' ''FOO'' ''http://img/foo.png'' 5 no_cache"

theorem upsertTokenMarketData_merge_witness:
  "\<exists>new. upsertTokenMarketData ''MintFoo'' [] [] [] (Num 1000) (Num 0) NaN 9 foo_cache ''MintFoo''
            = Some new
         \<and> mcap new = Some 1000 \<and> price_usd new = Some 0 \<and> price_change_24h new = None
         \<and> tc_name new = ''Foo'' \<and> tc_symbol new = ''FOO''
         \<and> tc_image new = ''http://img/foo.png''"
proof -
  have h: "foo_cache ''MintFoo'' =
      Some \<lparr> tc_name = ''Foo'', tc_symbol = ''FOO'', tc_image = ''http://img/foo.png'',
             mcap = Some 0, price_usd = Some 0, price_change_24h = Some 0, cached_at = 5 \<rparr>"
    by (simp add: foo_cache_def upsertTokenCache_def)
  show ?thesis
    using h upsertTokenMarketData_merge
      [where cache = foo_cache and mint = "''MintFoo''" and nm = "[]" and smb = "[]"
         and img = "[]" and mc = "Num 1000" and price = "Num 0" and change = NaN and now = 9]
    by simp
qed

section \<open>The trades table\<close>

text \<open>
  Table \<open>kol_trades\<close>. The columns \<open>id\<close>, \<open>action\<close> and \<open>signature\<close> are named \<open>row_id\<close>,
  \<open>row_action\<close> and \<open>row_signature\<close> here. \<open>signature\<close> is \<open>TEXT UNIQUE\<close>: no two rows hold
  the same non-\<open>NULL\<close> signature. \<open>seq\<close> is the counter behind \<open>AUTOINCREMENT\<close> (the
  entry of the table in \<open>sqlite_sequence\<close>): a new row gets the next value, and a row that
  \<open>OR IGNORE\<close> skips uses one up as well.
\<close>

record kol_trade =
  row_id :: nat
  wallet :: string
  kol_name :: string
  kol_avatar :: string
  row_action :: string
  token_symbol :: string
  amount_sol :: "real option"
  row_signature :: "string option"
  tx_timestamp :: int
  token_mint :: string
  token_amount :: "real option"

record trades_table =
  rows :: "kol_trade list"
  seq :: nat

datatype sql_error = SQLITE_CONSTRAINT_UNIQUE

datatype conflict_clause = OrAbort | OrIgnore

definition sig_conflict :: "string option \<Rightarrow> kol_trade \<Rightarrow> bool" where
  "sig_conflict sg r = (sg \<noteq> None \<and> row_signature r = sg)"

definition append_row :: "kol_trade \<Rightarrow> trades_table \<Rightarrow> trades_table" where
  "append_row new tbl =
     \<lparr> rows = rows tbl @ [new\<lparr>row_id := Suc (seq tbl)\<rparr>], seq = Suc (seq tbl) \<rparr>"

text \<open>
  An \<open>INSERT\<close> into \<open>kol_trades\<close> under a conflict clause: when the new signature is
  already stored, the plain statement fails, and \<open>OR IGNORE\<close> skips the row, leaving the
  rows as they are and the counter one higher.
\<close>

definition insert_kol_trades ::
  "conflict_clause \<Rightarrow> kol_trade \<Rightarrow> trades_table \<Rightarrow> sql_error + trades_table" where
  "insert_kol_trades cc new tbl =
     (if \<exists>r \<in> set (rows tbl). sig_conflict (row_signature new) r
      then (case cc of
              OrAbort \<Rightarrow> Inl SQLITE_CONSTRAINT_UNIQUE
            | OrIgnore \<Rightarrow> Inr (tbl\<lparr> seq := Suc (seq tbl) \<rparr>))
      else Inr (append_row new tbl))"

text \<open>\<open>insertTrade\<close>: \<open>INSERT OR IGNORE INTO kol_trades (...) VALUES (?, ..., ?)\<close>.\<close>

definition insertTrade ::
  "string \<Rightarrow> string \<Rightarrow> string \<Rightarrow> string \<Rightarrow> string \<Rightarrow> jsnum \<Rightarrow> string option \<Rightarrow> int
     \<Rightarrow> string \<Rightarrow> jsnum \<Rightarrow> trades_table \<Rightarrow> sql_error + trades_table" where
  "insertTrade w kn ka a ts amount sg tstamp tm tamount tbl =
     insert_kol_trades OrIgnore
       \<lparr> row_id = 0, wallet = w, kol_name = kn, kol_avatar = ka, row_action = a,
         token_symbol = ts, amount_sol = bind_real amount, row_signature = sg,
         tx_timestamp = tstamp, token_mint = tm, token_amount = bind_real tamount \<rparr>
       tbl"

text \<open>
  The persisting step that the shallow scan, the deep backfill and the webhook handler
  share: a valid trade with a signature is passed to \<open>insertTrade\<close>, an error of the
  statement is caught.
\<close>

definition persistTrade :: "string \<Rightarrow> trade option \<Rightarrow> trades_table \<Rightarrow> trades_table" where
  "persistTrade w tr tbl =
     (case tr of
        None \<Rightarrow> tbl
      | Some t \<Rightarrow>
          if isValidTrade (Some t) \<and> truthy_str (signature t)
          then (case (action t, tokenSymbol t) of
                  (Some a, Some smb) \<Rightarrow>
                    (case insertTrade w (kolName t) (kolAvatar t) a smb (amountSol t)
                            (signature t) (case timestamp t of None \<Rightarrow> 0 | Some x \<Rightarrow> x)
                            (tokenMint t) (Num (tokenAmount t)) tbl of
                       Inr tbl' \<Rightarrow> tbl'
                     | Inl e \<Rightarrow> tbl)
                | _ \<Rightarrow> tbl)
          else tbl)"

fun stored_signatures :: "kol_trade list \<Rightarrow> string list" where
  "stored_signatures [] = []"
| "stored_signatures (r # rs) =
     (case row_signature r of
        None \<Rightarrow> stored_signatures rs
      | Some s \<Rightarrow> s # stored_signatures rs)"

definition unique_signatures :: "kol_trade list \<Rightarrow> bool" where
  "unique_signatures rs = distinct (stored_signatures rs)"

definition rows_with :: "string \<Rightarrow> kol_trade list \<Rightarrow> kol_trade list" where
  "rows_with s rs = filter (\<lambda>r. row_signature r = Some s) rs"

section \<open>Inserting a stored signature again\<close>

lemma stored_signatures_append:
  "stored_signatures (rs @ rs') = stored_signatures rs @ stored_signatures rs'"
  by (induction rs) (auto split: option.splits)

lemma set_stored_signatures:
  "set (stored_signatures rs) = {s. \<exists>r \<in> set rs. row_signature r = Some s}"
  by (induction rs) (auto split: option.splits)

lemma rows_with_absent:
  "s \<notin> set (stored_signatures rs) \<Longrightarrow> rows_with s rs = []"
  by (auto simp: set_stored_signatures rows_with_def filter_empty_conv)

lemma rows_with_unique:
  "distinct (stored_signatures rs) \<Longrightarrow> s \<in> set (stored_signatures rs)
     \<Longrightarrow> length (rows_with s rs) = 1"
proof (induction rs)
  case Nil
  then show ?case by simp
next
  case (Cons r rs)
  show ?case
  proof (cases "row_signature r = Some s")
    case True
    with Cons.prems have "s \<notin> set (stored_signatures rs)" by simp
    then have "rows_with s rs = []" by (rule rows_with_absent)
    with True show ?thesis by (simp add: rows_with_def)
  next
    case False
    with Cons.prems have "distinct (stored_signatures rs)" "s \<in> set (stored_signatures rs)"
      by (auto split: option.splits)
    with Cons.IH False show ?thesis by (simp add: rows_with_def)
  qed
qed

lemma insert_kol_trades_ignore:
  assumes "unique_signatures (rows tbl)"
  shows "\<exists>tbl'. insert_kol_trades OrIgnore new tbl = Inr tbl'
           \<and> unique_signatures (rows tbl')
           \<and> (\<forall>s. row_signature new = Some s \<longrightarrow> length (rows_with s (rows tbl')) = 1)
           \<and> ((\<exists>r \<in> set (rows tbl). sig_conflict (row_signature new) r)
                \<longrightarrow> rows tbl' = rows tbl)"
proof (cases "\<exists>r \<in> set (rows tbl). sig_conflict (row_signature new) r")
  case True
  then have "\<And>s. row_signature new = Some s \<Longrightarrow> s \<in> set (stored_signatures (rows tbl))"
    by (auto simp: sig_conflict_def set_stored_signatures)
  with assms True show ?thesis
    by (auto simp: insert_kol_trades_def unique_signatures_def rows_with_unique)
next
  case False
  let ?tbl' = "append_row new tbl"
  have fresh: "\<And>s. row_signature new = Some s \<Longrightarrow> s \<notin> set (stored_signatures (rows tbl))"
    using False by (auto simp: sig_conflict_def set_stored_signatures)
  have u: "unique_signatures (rows ?tbl')"
    using assms fresh
    by (auto simp: append_row_def unique_signatures_def stored_signatures_append
             split: option.splits)
  have one: "\<And>s. row_signature new = Some s \<Longrightarrow> length (rows_with s (rows ?tbl')) = 1"
  proof -
    fix s assume s: "row_signature new = Some s"
    from fresh [OF s] have "rows_with s (rows tbl) = []" by (rule rows_with_absent)
    then have "filter (\<lambda>r. row_signature r = Some s) (rows tbl) = []"
      by (simp add: rows_with_def)
    with s show "length (rows_with s (rows ?tbl')) = 1"
      by (simp add: rows_with_def append_row_def)
  qed
  from False u one show ?thesis
    by (simp add: insert_kol_trades_def)
qed

lemma persistTrade_unique:
  assumes "unique_signatures (rows tbl)"
  shows "unique_signatures (rows (persistTrade w tr tbl))"
proof -
  have "unique_signatures (rows tbl')"
    if "insert_kol_trades OrIgnore new tbl = Inr tbl'" for new tbl'
    using that insert_kol_trades_ignore [OF assms, of new] by auto
  with assms show ?thesis
    by (auto simp: persistTrade_def insertTrade_def split: option.splits sum.splits)
qed

text \<open>
  Claim C4. On a table whose signatures are unique, \<open>insertTrade\<close> never fails and leaves
  the signatures unique; afterwards exactly one row holds the inserted signature; and
  when that signature was already stored the rows afterwards are the rows before, so the
  stored row is unchanged and no row is added. The persisting step shared by the three
  ingestion paths keeps the signatures unique as well.
\<close>

theorem insertTrade_duplicate_noop:
  assumes "unique_signatures (rows tbl)"
  shows "(\<exists>tbl'. insertTrade w kn ka a ts amount sg tstamp tm tamount tbl = Inr tbl'
            \<and> unique_signatures (rows tbl')
            \<and> (\<forall>s. sg = Some s \<longrightarrow> length (rows_with s (rows tbl')) = 1)
            \<and> ((\<exists>r \<in> set (rows tbl). sig_conflict sg r) \<longrightarrow> rows tbl' = rows tbl))
         \<and> unique_signatures (rows (persistTrade w' tr tbl))"
  using insert_kol_trades_ignore
      [OF assms,
       of "\<lparr> row_id = 0, wallet = w, kol_name = kn, kol_avatar = ka, row_action = a,
             token_symbol = ts, amount_sol = bind_real amount, row_signature = sg,
             tx_timestamp = tstamp, token_mint = tm, token_amount = bind_real tamount \<rparr>"]
    persistTrade_unique [OF assms, of w' tr]
  by (simp add: insertTrade_def)

text \<open>
  Two inserts with the signature \<open>sigA\<close> into the empty table: the second differs in every
  other field, and the rows after it are the one row of the first; only the counter has
  moved.
\<close>

definition empty_trades :: trades_table where
  "empty_trades = \<lparr> rows = [], seq = 0 \<rparr>"

definition one_trade :: trades_table where
  "one_trade =
     \<lparr> rows = [\<lparr> row_id = 1, wallet = ''WalletA'', kol_name = ''Ansem'', kol_avatar = [],
                  row_action = ''Buy'', token_symbol = ''WIF'', amount_sol = Some 1,
                  row_signature = Some ''sigA'', tx_timestamp = 1700000000,
                  token_mint = ''MintWif'', token_amount = Some 10 \<rparr>],
       seq = 1 \<rparr>"

lemma first_insert:
  "insertTrade ''WalletA'' ''Ansem'' [] ''Buy'' ''WIF'' (Num 1) (Some ''sigA'') 1700000000
     ''MintWif'' (Num 10) empty_trades = Inr one_trade"
  by (simp add: insertTrade_def insert_kol_trades_def append_row_def empty_trades_def
        one_trade_def)

theorem insertTrade_duplicate_noop_witness:
  "unique_signatures (rows one_trade)
   \<and> (\<exists>r \<in> set (rows one_trade). sig_conflict (Some ''sigA'') r)
   \<and> insertTrade ''WalletB'' ''Other'' [] ''Sell'' ''BOME'' (Num 2) (Some ''sigA'') 1700000500
        ''MintBome'' (Num 99) one_trade = Inr (one_trade\<lparr> seq := 2 \<rparr>)
   \<and> rows (one_trade\<lparr> seq := 2 \<rparr>) = rows one_trade
   \<and> length (rows_with ''sigA'' (rows one_trade)) = 1"
proof -
  have u: "unique_signatures (rows one_trade)"
    by (simp add: unique_signatures_def one_trade_def)
  have c: "\<exists>r \<in> set (rows one_trade). sig_conflict (Some ''sigA'') r"
    by (simp add: sig_conflict_def one_trade_def)
  have e: "insertTrade ''WalletB'' ''Other'' [] ''Sell'' ''BOME'' (Num 2) (Some ''sigA'')
             1700000500 ''MintBome'' (Num 99) one_trade = Inr (one_trade\<lparr> seq := 2 \<rparr>)"
    by (simp add: insertTrade_def insert_kol_trades_def sig_conflict_def one_trade_def)
  from insertTrade_duplicate_noop
         [OF u, of "''WalletB''" "''Other''" "[]" "''Sell''" "''BOME''" "Num 2" "Some ''sigA''"
            1700000500 "''MintBome''" "Num 99"] c e
  have "rows (one_trade\<lparr> seq := 2 \<rparr>) = rows one_trade
        \<and> length (rows_with ''sigA'' (rows (one_trade\<lparr> seq := 2 \<rparr>))) = 1"
    by auto
  with u c e show ?thesis by simp
qed

section \<open>The scanner state\<close>

text \<open>
  The module variables \<open>scannerPhase\<close> and \<open>scanProgress\<close>. Scheduling is cooperative: the
  code of a function runs undisturbed up to its next \<open>await\<close>. \<open>active_scans\<close> counts the
  calls of \<open>runBackgroundScan\<close> and \<open>runDeepBackfill\<close> that have passed the guard on their
  first line and have not returned yet; the source has no such variable.
\<close>

datatype phase = Idle | Scanning | Done

record scan_state =
  scannerPhase :: phase
  progress_done :: nat
  progress_total :: nat
  active_scans :: nat

definition initial_state :: scan_state where
  "initial_state = \<lparr> scannerPhase = Idle, progress_done = 0, progress_total = 0, active_scans = 0 \<rparr>"

text \<open>
  The first lines of \<open>runBackgroundScan\<close> and of \<open>runDeepBackfill\<close>, up to the first \<open>await\<close>;
  \<open>n_kols\<close> is the number of KOLs with a wallet address.
\<close>

definition runBackgroundScan :: "nat \<Rightarrow> scan_state \<Rightarrow> scan_state" where
  "runBackgroundScan n_kols st =
     (if scannerPhase st = Scanning then st
      else st\<lparr> scannerPhase := Scanning, progress_done := 0, progress_total := n_kols,
               active_scans := Suc (active_scans st) \<rparr>)"

definition runDeepBackfill :: "nat \<Rightarrow> scan_state \<Rightarrow> scan_state" where
  "runDeepBackfill n_kols st =
     (if scannerPhase st = Scanning then st
      else st\<lparr> scannerPhase := Scanning, progress_done := 0, progress_total := n_kols,
               active_scans := Suc (active_scans st) \<rparr>)"

datatype http_response = Status200 | Status400 | Status409

text \<open>The handlers of \<open>POST /api/backfill\<close>, \<open>/api/deep-backfill\<close> and \<open>/api/reset-trades\<close>.\<close>

definition api_backfill :: "bool \<Rightarrow> nat \<Rightarrow> scan_state \<Rightarrow> http_response \<times> scan_state" where
  "api_backfill helius_enabled n_kols st =
     (if \<not> helius_enabled then (Status400, st)
      else if scannerPhase st = Scanning then (Status409, st)
      else (Status200, runBackgroundScan n_kols st))"

definition api_deep_backfill :: "bool \<Rightarrow> nat \<Rightarrow> scan_state \<Rightarrow> http_response \<times> scan_state" where
  "api_deep_backfill helius_enabled n_kols st =
     (if \<not> helius_enabled then (Status400, st)
      else if scannerPhase st = Scanning then (Status409, st)
      else (Status200, runDeepBackfill n_kols st))"

definition api_reset_trades ::
  "bool \<Rightarrow> nat \<Rightarrow> scan_state \<times> trades_table \<Rightarrow> http_response \<times> scan_state \<times> trades_table" where
  "api_reset_trades helius_enabled n_kols s =
     (case s of (st, tbl) \<Rightarrow>
        if \<not> helius_enabled then (Status400, st, tbl)
        else if scannerPhase st = Scanning then (Status409, st, tbl)
        else (Status200, runDeepBackfill n_kols st, tbl\<lparr>rows := []\<rparr>))"

text \<open>
  What can happen to the scanner state: a trigger (a direct call, as the start-up timer
  makes, or one of the three requests), and for a scan under way a progress update, its
  last lines (\<open>scannerPhase = 'done'\<close>) or its end by an exception, which leaves the phase
  as it is.
\<close>

datatype scan_event =
    CallShallow nat
  | CallDeep nat
  | PostBackfill bool nat
  | PostDeepBackfill bool nat
  | PostResetTrades bool nat
  | Progress nat
  | Complete
  | Throw

fun scan_step :: "scan_state \<Rightarrow> scan_event \<Rightarrow> scan_state" where
  "scan_step st (CallShallow n_kols) = runBackgroundScan n_kols st"
| "scan_step st (CallDeep n_kols) = runDeepBackfill n_kols st"
| "scan_step st (PostBackfill en n_kols) = snd (api_backfill en n_kols st)"
| "scan_step st (PostDeepBackfill en n_kols) = snd (api_deep_backfill en n_kols st)"
| "scan_step st (PostResetTrades en n_kols) =
     fst (snd (api_reset_trades en n_kols (st, \<lparr> rows = [], seq = 0 \<rparr>)))"
| "scan_step st (Progress d) =
     (if active_scans st = 0 then st else st\<lparr> progress_done := d \<rparr>)"
| "scan_step st Complete =
     (if active_scans st = 0 then st
      else st\<lparr> scannerPhase := Done, active_scans := active_scans st - 1 \<rparr>)"
| "scan_step st Throw =
     (if active_scans st = 0 then st else st\<lparr> active_scans := active_scans st - 1 \<rparr>)"

definition run_events :: "scan_event list \<Rightarrow> scan_state" where
  "run_events evs = foldl scan_step initial_state evs"

section \<open>At most one scan at a time\<close>

definition scan_inv :: "scan_state \<Rightarrow> bool" where
  "scan_inv st = (active_scans st \<le> 1 \<and> (active_scans st = 1 \<longrightarrow> scannerPhase st = Scanning))"

lemma scan_step_inv: "scan_inv st \<Longrightarrow> scan_inv (scan_step st ev)"
  by (cases ev)
     (auto simp: scan_inv_def runBackgroundScan_def runDeepBackfill_def api_backfill_def
        api_deep_backfill_def api_reset_trades_def)

lemma foldl_scan_inv: "scan_inv st \<Longrightarrow> scan_inv (foldl scan_step st evs)"
  by (induction evs arbitrary: st) (simp_all add: scan_step_inv)

lemma run_events_inv: "scan_inv (run_events evs)"
  unfolding run_events_def
  by (rule foldl_scan_inv) (simp add: scan_inv_def initial_state_def)

text \<open>
  Claim C9. While the phase is \<open>scanning\<close>, every trigger returns the state as it is:
  the direct calls return at once, the three requests answer 409 (400 when Helius is
  disabled), no scan is started and nothing records the request for later. Hence after
  any sequence of events at most one scan is under way.
\<close>

theorem scan_mutual_exclusion:
  "(scannerPhase st = Scanning \<longrightarrow>
      runBackgroundScan n_kols st = st
      \<and> runDeepBackfill n_kols st = st
      \<and> api_backfill en n_kols st = (if en then Status409 else Status400, st)
      \<and> api_deep_backfill en n_kols st = (if en then Status409 else Status400, st)
      \<and> api_reset_trades en n_kols (st, tbl) = (if en then Status409 else Status400, st, tbl))
   \<and> active_scans (run_events evs) \<le> 1"
  using run_events_inv [of evs]
  by (simp add: scan_inv_def runBackgroundScan_def runDeepBackfill_def api_backfill_def
        api_deep_backfill_def api_reset_trades_def)

text \<open>
  A deep backfill is started, then a deep backfill and a quick backfill are requested:
  both get 409 and the state stays that of the one scan.
\<close>

definition scanning_state :: scan_state where
  "scanning_state =
     \<lparr> scannerPhase = Scanning, progress_done = 0, progress_total = 40, active_scans = 1 \<rparr>"

theorem scan_mutual_exclusion_witness:
  "run_events [CallDeep 40] = scanning_state
   \<and> scannerPhase scanning_state = Scanning
   \<and> api_deep_backfill True 40 scanning_state = (Status409, scanning_state)
   \<and> api_backfill True 40 scanning_state = (Status409, scanning_state)
   \<and> runDeepBackfill 40 scanning_state = scanning_state
   \<and> active_scans (run_events [CallDeep 40, PostDeepBackfill True 40, PostBackfill True 40]) \<le> 1"
proof -
  have r: "run_events [CallDeep 40] = scanning_state"
    by (simp add: run_events_def initial_state_def scanning_state_def runDeepBackfill_def)
  have p: "scannerPhase scanning_state = Scanning"
    by (simp add: scanning_state_def)
  from scan_mutual_exclusion
         [of scanning_state 40 True "\<lparr> rows = [], seq = 0 \<rparr>"
             "[CallDeep 40, PostDeepBackfill True 40, PostBackfill True 40]"] p r
  show ?thesis by simp
qed

section \<open>Raw transactions\<close>

text \<open>
  A transaction record of the transaction source, with the fields the server reads.
  Amounts and timestamps are JSON numbers. \<open>events_swap\<close> is \<open>tx.events?.swap\<close>; the
  fields \<open>signature\<close>, \<open>timestamp\<close> and \<open>type\<close> are named \<open>txSignature\<close>,
  \<open>txTimestamp\<close> and \<open>txType\<close>.
\<close>

record native_transfer =
  nt_fromUserAccount :: "string option"
  nt_toUserAccount :: "string option"
  nt_amount :: "real option"

record token_transfer =
  tt_fromUserAccount :: "string option"
  tt_toUserAccount :: "string option"
  tt_mint :: "string option"
  tt_tokenAmount :: "real option"

record raw_token_amount =
  raw_tokenAmount :: "real option"
  decimals :: "nat option"

record swap_token =
  st_mint :: "string option"
  rawTokenAmount :: "raw_token_amount option"
  st_tokenAmount :: "real option"

record native_leg =
  amount :: "real option"

record swap_event =
  nativeInput :: "native_leg option"
  nativeOutput :: "native_leg option"
  tokenInputs :: "swap_token list option"
  tokenOutputs :: "swap_token list option"

record raw_tx =
  txSignature :: "string option"
  txTimestamp :: "int option"
  txType :: "string option"
  description :: "string option"
  tokenTransfers :: "token_transfer list option"
  nativeTransfers :: "native_transfer list option"
  events_swap :: "swap_event option"

section \<open>The paginated fetch\<close>

text \<open>
  One request to the transaction source either throws, or answers not ok, or has a
  body that fails to parse or cannot be iterated, or has the body \<open>txs\<close> (\<open>None\<close>: a
  falsy body). The source is a function of the wallet, the page number and the \<open>before\<close>
  cursor.
\<close>

datatype page_response = Fetch_Threw | Not_Ok | Json_Threw | Json "raw_tx list option"

type_synonym tx_source = "string \<Rightarrow> nat \<Rightarrow> string option \<Rightarrow> page_response"

text \<open>The test \<open>tx.timestamp && tx.timestamp < sinceTimestamp\<close>: 0 is falsy.\<close>

fun older_than :: "int option \<Rightarrow> int \<Rightarrow> bool" where
  "older_than None since = False"
| "older_than (Some t) since = (t \<noteq> 0 \<and> t < since)"

text \<open>The loop over one page; the result is \<open>allTxs\<close> and \<open>reachedCutoff\<close>.\<close>

fun scanPage :: "int \<Rightarrow> raw_tx list \<Rightarrow> raw_tx list \<Rightarrow> raw_tx list \<times> bool" where
  "scanPage since [] allTxs = (allTxs, False)"
| "scanPage since (tx # rest) allTxs =
     (if older_than (txTimestamp tx) since then (allTxs, True)
      else scanPage since rest (allTxs @ [tx]))"

text \<open>
  The loop over pages, by the number of pages left. The result is \<open>allTxs\<close> and the
  credit estimate, which grows by 100 once a request has answered.
\<close>

fun fetchPages ::
  "tx_source \<Rightarrow> string \<Rightarrow> int \<Rightarrow> nat \<Rightarrow> nat \<Rightarrow> string option \<Rightarrow> raw_tx list \<Rightarrow> nat
     \<Rightarrow> raw_tx list \<times> nat" where
  "fetchPages src w since 0 page beforeSig allTxs credit = (allTxs, credit)"
| "fetchPages src w since (Suc left) page beforeSig allTxs credit =
     (case src w page (if truthy_str beforeSig then beforeSig else None) of
        Fetch_Threw \<Rightarrow> (allTxs, credit)
      | Not_Ok \<Rightarrow> (allTxs, credit + 100)
      | Json_Threw \<Rightarrow> (allTxs, credit + 100)
      | Json None \<Rightarrow> (allTxs, credit + 100)
      | Json (Some txs) \<Rightarrow>
          if txs = [] then (allTxs, credit + 100)
          else (case scanPage since txs allTxs of
                  (allTxs', reachedCutoff) \<Rightarrow>
                    if reachedCutoff \<or> length txs < 100 then (allTxs', credit + 100)
                    else fetchPages src w since left (Suc page) (txSignature (last txs))
                           allTxs' (credit + 100)))"

text \<open>
  \<open>fetchPaginatedTransactions\<close>; \<open>enabled\<close> stands for \<open>HELIUS_ENABLED && HELIUS_API_KEY\<close>
  and \<open>credit\<close> for the credit estimate before the call.
\<close>

definition fetchPaginatedTransactions ::
  "bool \<Rightarrow> tx_source \<Rightarrow> nat \<Rightarrow> string \<Rightarrow> int \<Rightarrow> nat \<Rightarrow> raw_tx list \<times> nat" where
  "fetchPaginatedTransactions enabled src credit walletAddress sinceTimestamp maxPages =
     (if \<not> enabled then ([], credit)
      else fetchPages src walletAddress sinceTimestamp maxPages 0 None [] credit)"


section \<open>What the paginated fetch returns\<close>

text \<open>A transaction that the loop over a page does not stop at.\<close>

definition kept_tx :: "int \<Rightarrow> raw_tx \<Rightarrow> bool" where
  "kept_tx since tx = (\<not> older_than (txTimestamp tx) since)"

lemma kept_tx_fun: "kept_tx since = (\<lambda>tx. \<not> older_than (txTimestamp tx) since)"
  by (rule ext) (simp add: kept_tx_def)

lemma scanPage_eq:
  "scanPage since txs allTxs =
     (allTxs @ takeWhile (kept_tx since) txs, \<not> list_all (kept_tx since) txs)"
  by (induction txs arbitrary: allTxs) (simp_all add: kept_tx_def)

lemma fetchPages_Suc:
  "fetchPages src w since (Suc left) page beforeSig allTxs credit =
     (case src w page (if truthy_str beforeSig then beforeSig else None) of
        Fetch_Threw \<Rightarrow> (allTxs, credit)
      | Not_Ok \<Rightarrow> (allTxs, credit + 100)
      | Json_Threw \<Rightarrow> (allTxs, credit + 100)
      | Json None \<Rightarrow> (allTxs, credit + 100)
      | Json (Some txs) \<Rightarrow>
          if txs = [] then (allTxs, credit + 100)
          else if \<not> list_all (kept_tx since) txs \<or> length txs < 100
               then (allTxs @ takeWhile (kept_tx since) txs, credit + 100)
               else fetchPages src w since left (Suc page) (txSignature (last txs))
                      (allTxs @ takeWhile (kept_tx since) txs) (credit + 100))"
  by (simp add: scanPage_eq split: page_response.split option.split)

lemma kept_append:
  "list_all (kept_tx since) allTxs
     \<Longrightarrow> list_all (kept_tx since) (allTxs @ takeWhile (kept_tx since) txs)"
  by (auto simp: list_all_iff dest: set_takeWhileD)

lemma fetchPages_kept:
  "list_all (kept_tx since) allTxs
     \<Longrightarrow> list_all (kept_tx since) (fst (fetchPages src w since left page beforeSig allTxs credit))"
proof (induction left arbitrary: page beforeSig allTxs credit)
  case 0
  then show ?case by simp
next
  case (Suc left)
  note step = Suc.IH [OF kept_append [OF Suc.prems]]
  show ?case
    unfolding fetchPages_Suc
    using Suc.prems kept_append [OF Suc.prems] step
    by (simp split: page_response.split option.split del: fetchPages.simps)
qed

lemma fetchPages_stop:
  assumes "src w page (if truthy_str beforeSig then beforeSig else None) = Json (Some txs)"
    and "txs \<noteq> []"
    and "\<not> list_all (kept_tx since) txs \<or> length txs < 100"
  shows "fetchPages src w since (Suc left) page beforeSig allTxs credit
           = (allTxs @ takeWhile (kept_tx since) txs, credit + 100)"
  unfolding fetchPages_Suc using assms by simp

lemma fifty: "(50::nat) = Suc 49"
  by simp

text \<open>
  Claim C10 as stated fails: a transaction whose timestamp is 0 passes the test
  \<open>tx.timestamp && ...\<close> and is returned, though its timestamp is present and below the
  cutoff.
\<close>

definition epoch_tx :: raw_tx where
  "epoch_tx =
     \<lparr> txSignature = Some ''sigZero'', txTimestamp = Some 0, txType = Some ''SWAP'',
       description = None, tokenTransfers = None, nativeTransfers = None,
       events_swap = None \<rparr>"

definition epoch_source :: tx_source where
  "epoch_source w page before = (if page = 0 then Json (Some [epoch_tx]) else Json (Some []))"

theorem fetchPaginated_cutoff_counterexample:
  "fst (fetchPaginatedTransactions True epoch_source 0 ''WalletA'' 1700000000 50) = [epoch_tx]
   \<and> txTimestamp epoch_tx = Some 0 \<and> (0::int) < 1700000000"
proof -
  have src: "epoch_source ''WalletA'' 0 (if truthy_str None then None else None)
               = Json (Some [epoch_tx])"
    by (simp add: epoch_source_def)
  have k: "kept_tx 1700000000 epoch_tx"
    by (simp add: kept_tx_def epoch_tx_def)
  have "fetchPages epoch_source ''WalletA'' 1700000000 (Suc 49) 0 None [] 0
          = ([] @ takeWhile (kept_tx 1700000000) [epoch_tx], 0 + 100)"
    using src
    by (intro fetchPages_stop
          [where src = epoch_source and w = "''WalletA''" and page = 0 and beforeSig = None
             and txs = "[epoch_tx]"])
       simp_all
  with k have "fetchPages epoch_source ''WalletA'' 1700000000 (Suc 49) 0 None [] 0
               = ([epoch_tx], 100)"
    by simp
  then have "fst (fetchPaginatedTransactions True epoch_source 0 ''WalletA'' 1700000000 50)
               = [epoch_tx]"
    unfolding fetchPaginatedTransactions_def fifty by simp
  then show ?thesis
    by (simp add: epoch_tx_def)
qed

text \<open>
  Claim C10, amended. Every transaction in the returned array has no timestamp, or the
  timestamp 0, or a timestamp that is not below \<open>sinceTimestamp\<close>. When a fetched page
  holds a transaction with a non-zero timestamp below the cutoff, the page contributes
  the transactions before the first such one and the fetch returns without another
  request.
\<close>

theorem fetchPaginated_cutoff:
  "(\<forall>tx \<in> set (fst (fetchPaginatedTransactions enabled src credit w since maxPages)).
       txTimestamp tx = None \<or> txTimestamp tx = Some 0
       \<or> (\<exists>t. txTimestamp tx = Some t \<and> since \<le> t))
   \<and> (src w page (if truthy_str beforeSig then beforeSig else None) = Json (Some txs)
        \<and> (\<exists>tx \<in> set txs. older_than (txTimestamp tx) since)
      \<longrightarrow> fetchPages src w since (Suc left) page beforeSig allTxs c
            = (allTxs @ takeWhile (\<lambda>tx. \<not> older_than (txTimestamp tx) since) txs, c + 100))"
proof -
  have "list_all (kept_tx since)
          (fst (fetchPaginatedTransactions enabled src credit w since maxPages))"
    using fetchPages_kept [of since "[]" src w maxPages 0 None credit]
    by (simp add: fetchPaginatedTransactions_def del: fetchPages.simps)
  moreover have "txTimestamp tx = None \<or> txTimestamp tx = Some 0
                 \<or> (\<exists>t. txTimestamp tx = Some t \<and> since \<le> t)"
    if "kept_tx since tx" for tx :: raw_tx
    using that by (cases "txTimestamp tx") (auto simp: kept_tx_def)
  ultimately have first:
    "\<forall>tx \<in> set (fst (fetchPaginatedTransactions enabled src credit w since maxPages)).
       txTimestamp tx = None \<or> txTimestamp tx = Some 0
       \<or> (\<exists>t. txTimestamp tx = Some t \<and> since \<le> t)"
    unfolding list_all_iff by blast
  have second: "fetchPages src w since (Suc left) page beforeSig allTxs c
            = (allTxs @ takeWhile (\<lambda>tx. \<not> older_than (txTimestamp tx) since) txs, c + 100)"
    if s: "src w page (if truthy_str beforeSig then beforeSig else None) = Json (Some txs)"
      and o: "\<exists>tx \<in> set txs. older_than (txTimestamp tx) since"
  proof -
    from o have "\<not> list_all (kept_tx since) txs" "txs \<noteq> []"
      by (auto simp: list_all_iff kept_tx_def)
    then have "fetchPages src w since (Suc left) page beforeSig allTxs c
                 = (allTxs @ takeWhile (kept_tx since) txs, c + 100)"
      using s by (intro fetchPages_stop) auto
    then show ?thesis
      by (simp only: kept_tx_fun)
  qed
  from first second show ?thesis by blast
qed

text \<open>
  A page of three: a transaction of the day after the cutoff, one of the day before and
  again one after. Only the first is returned, and the second page is not requested.
\<close>

definition tx_at :: "string \<Rightarrow> int \<Rightarrow> raw_tx" where
  "tx_at sg t =
     \<lparr> txSignature = Some sg, txTimestamp = Some t, txType = Some ''SWAP'',
       description = None, tokenTransfers = None, nativeTransfers = None,
       events_swap = None \<rparr>"

definition cutoff_source :: tx_source where
  "cutoff_source w page before =
     (if page = 0
      then Json (Some [tx_at ''s1'' 1700086400, tx_at ''s2'' 1699913600, tx_at ''s3'' 1700086400])
      else Json (Some [tx_at ''s4'' 1700086400]))"

theorem fetchPaginated_cutoff_witness:
  "fst (fetchPaginatedTransactions True cutoff_source 0 ''WalletA'' 1700000000 50)
     = [tx_at ''s1'' 1700086400]
   \<and> txTimestamp (tx_at ''s1'' 1700086400) = Some 1700086400
   \<and> (1700000000::int) \<le> 1700086400
   \<and> fetchPages cutoff_source ''WalletA'' 1700000000 (Suc 49) 0 None [] 0
       = ([tx_at ''s1'' 1700086400], 100)"
proof -
  let ?txs = "[tx_at ''s1'' 1700086400, tx_at ''s2'' 1699913600, tx_at ''s3'' 1700086400]"
  have src: "cutoff_source ''WalletA'' 0 (if truthy_str None then None else None)
               = Json (Some ?txs)"
    by (simp add: cutoff_source_def)
  have old: "\<exists>tx \<in> set ?txs. older_than (txTimestamp tx) 1700000000"
    by (simp add: tx_at_def)
  have tw: "takeWhile (\<lambda>tx. \<not> older_than (txTimestamp tx) 1700000000) ?txs
              = [tx_at ''s1'' 1700086400]"
    by (simp add: tx_at_def)
  note T = fetchPaginated_cutoff
             [of True cutoff_source 0 "''WalletA''" 1700000000 50 0 None ?txs 49 "[]" 0]
  have a: "\<forall>tx \<in> set (fst (fetchPaginatedTransactions True cutoff_source 0 ''WalletA''
                                 1700000000 50)).
               txTimestamp tx = None \<or> txTimestamp tx = Some 0
               \<or> (\<exists>t. txTimestamp tx = Some t \<and> 1700000000 \<le> t)"
    by (rule conjunct1 [OF T])
  have b: "fetchPages cutoff_source ''WalletA'' 1700000000 (Suc 49) 0 None [] 0
              = ([] @ takeWhile (\<lambda>tx. \<not> older_than (txTimestamp tx) 1700000000) ?txs, 0 + 100)"
    by (rule mp [OF conjunct2 [OF T] conjI [OF src old]])
  have b': "fetchPages cutoff_source ''WalletA'' 1700000000 (Suc 49) 0 None [] 0
              = ([tx_at ''s1'' 1700086400], 100)"
    unfolding b tw by simp
  have c: "fst (fetchPaginatedTransactions True cutoff_source 0 ''WalletA'' 1700000000 50)
              = [tx_at ''s1'' 1700086400]"
    unfolding fetchPaginatedTransactions_def fifty b' by simp
  from a c have "txTimestamp (tx_at ''s1'' 1700086400) = None
                 \<or> txTimestamp (tx_at ''s1'' 1700086400) = Some 0
                 \<or> (\<exists>t. txTimestamp (tx_at ''s1'' 1700086400) = Some t \<and> 1700000000 \<le> t)"
    by simp
  then have d: "txTimestamp (tx_at ''s1'' 1700086400) = Some 1700086400
                \<and> (1700000000::int) \<le> 1700086400"
    by (simp add: tx_at_def)
  from d b' c show ?thesis by simp
qed


section \<open>The recent-trades feed\<close>

text \<open>
  The row type of \<open>getRecentTradesRaw\<close>: a trade row with the image and price of its
  token from the \<open>LEFT JOIN\<close> with the token cache.
\<close>

record feed_row = kol_trade +
  token_image :: "string option"
  token_price :: "real option"

definition join_token :: "token_cache \<Rightarrow> kol_trade \<Rightarrow> feed_row" where
  "join_token cache r =
     kol_trade.extend r
       (feed_row.fields (map_option tc_image (cache (token_mint r)))
                        (case cache (token_mint r) of None \<Rightarrow> None | Some tc \<Rightarrow> price_usd tc))"

definition SQL_SKIP_SYMBOLS :: "string list" where
  "SQL_SKIP_SYMBOLS =
     [''SOL'', ''WSOL'', ''USDC'', ''USDT'', ''USDS'', ''mSOL'', ''jitoSOL'', ''bSOL'',
      ''stSOL'', ''JitoSOL'', ''WETH'', ''WBTC'', ''RAY'', ''JLP'', ''JTO'', ''PYTH'', ''JUP'']"

definition SQL_SKIP_MINTS :: "string list" where
  "SQL_SKIP_MINTS =
     [''So11111111111111111111111111111111111111112'',
      ''EPjFWdd5AufqSSqeM2qN1xzybapC8G4wEGGkZwyTDt1v'',
      ''Es9vMFrzaCERmJfrF4H2FYD4KCoNkY11McCe8BenwNYB'']"

text \<open>
  \<open>getRecentTradesRaw\<close>: the rows with action Buy or Sell whose symbol and mint are not
  in the two lists of the statement, \<open>ORDER BY tx_timestamp DESC LIMIT ?\<close>. SQL leaves the
  order of rows with equal timestamps open; the model keeps them in table order. The
  bound number is a whole number; the statement fails with a datatype mismatch (\<open>None\<close>)
  when it is outside the 64-bit integers, and a negative \<open>LIMIT\<close> is no limit.
\<close>

definition getRecentTradesRaw :: "trades_table \<Rightarrow> token_cache \<Rightarrow> int \<Rightarrow> feed_row list option" where
  "getRecentTradesRaw tbl cache n =
     (let found = sort_key (\<lambda>r. - tx_timestamp r)
                    (map (join_token cache)
                       (filter (\<lambda>r. (row_action r = ''Buy'' \<or> row_action r = ''Sell'')
                                    \<and> token_symbol r \<notin> set SQL_SKIP_SYMBOLS
                                    \<and> token_mint r \<notin> set SQL_SKIP_MINTS)
                          (rows tbl)))
      in if 2 ^ 63 \<le> n \<or> n < - (2 ^ 63) then None
         else if n < 0 then Some found
         else Some (take (nat n) found))"

text \<open>\<open>parseInt(req.query.limit) || 20\<close>; \<open>None\<close> is a parameter that is absent or not a number.\<close>

fun feed_limit :: "int option \<Rightarrow> int" where
  "feed_limit None = 20"
| "feed_limit (Some n) = (if n = 0 then 20 else n)"

text \<open>The filter of the handler on the rows read.\<close>

definition notSkipped :: "feed_row \<Rightarrow> bool" where
  "notSkipped t =
     (if toUpperCase (token_symbol t) \<in> set SKIP_TOKENS \<or> token_symbol t \<in> set SKIP_TOKENS
      then False
      else if token_mint t \<noteq> [] \<and> token_mint t \<in> set SKIP_MINTS then False
      else True)"

text \<open>\<open>t.kol_name || t.wallet || 'unknown'\<close>.\<close>

definition feedKey :: "feed_row \<Rightarrow> string" where
  "feedKey t = (if kol_name t \<noteq> [] then kol_name t
                else if wallet t \<noteq> [] then wallet t else ''unknown'')"

text \<open>
  \<open>kolCounts\<close> is a plain object, \<open>{}\<close>. Under a name that every object inherits it reads
  a function (under \<open>__proto__\<close> an object), so \<open>(kolCounts[key] || 0) + 1\<close> is a string
  there and the test \<open>kolCounts[key] <= 2\<close> is false, now and at every later row of that
  key. A counter is \<open>Some n\<close> for the number \<open>n\<close> (0 when the property is missing) and
  \<open>None\<close> for a value that is not a number.
\<close>

definition OBJECT_PROTOTYPE_KEYS :: "string list" where
  "OBJECT_PROTOTYPE_KEYS =
     [''constructor'', ''__defineGetter__'', ''__defineSetter__'', ''hasOwnProperty'',
      ''__lookupGetter__'', ''__lookupSetter__'', ''isPrototypeOf'', ''propertyIsEnumerable'',
      ''toString'', ''valueOf'', ''__proto__'', ''toLocaleString'']"

definition emptyCounts :: "string \<Rightarrow> nat option" where
  "emptyCounts k = (if k \<in> set OBJECT_PROTOTYPE_KEYS then None else Some 0)"

text \<open>The diversity loop.\<close>

fun diversify ::
  "int \<Rightarrow> feed_row list \<Rightarrow> (string \<Rightarrow> nat option) \<Rightarrow> feed_row list \<Rightarrow> feed_row list" where
  "diversify limit [] kolCounts diverseTrades = diverseTrades"
| "diversify limit (t # rest) kolCounts diverseTrades =
     (let key = feedKey t;
          c = (case kolCounts key of None \<Rightarrow> None | Some n \<Rightarrow> Some (n + 1));
          diverseTrades' = (case c of
                              None \<Rightarrow> diverseTrades
                            | Some m \<Rightarrow> if m \<le> 2 then diverseTrades @ [t] else diverseTrades)
      in if int (length diverseTrades') \<ge> limit then diverseTrades'
         else diversify limit rest (kolCounts(key := c)) diverseTrades')"

text \<open>
  The handler of \<open>GET /api/trades/feed\<close>, up to the rows it keeps; the response shows each
  kept row, in this order. When the statement fails the handler answers 500 with no
  trades.
\<close>

datatype feed_response = Failed500 | Trades "feed_row list"

definition trades_feed :: "int option \<Rightarrow> trades_table \<Rightarrow> token_cache \<Rightarrow> feed_response" where
  "trades_feed q tbl cache =
     (let limit = feed_limit q in
      case getRecentTradesRaw tbl cache (max (limit * 10) 200) of
        None \<Rightarrow> Failed500
      | Some rawTrades \<Rightarrow> Trades (diversify limit (filter notSkipped rawTrades) emptyCounts []))"



section \<open>The diversity cap of the feed\<close>














definition row_of :: "nat \<Rightarrow> string \<Rightarrow> string \<Rightarrow> int \<Rightarrow> kol_trade" where
  "row_of i kn sg t =
     \<lparr> row_id = i, wallet = ''Wallet'' @ kn, kol_name = kn, kol_avatar = [],
       row_action = ''Buy'', token_symbol = ''WIF'', amount_sol = Some 1,
       row_signature = Some sg, tx_timestamp = t, token_mint = ''MintWif'',
       token_amount = Some 10 \<rparr>"



text \<open>
  Five trades of X and an older one of Y, page size 3: the page is the two newest trades
  of X and the trade of Y.
\<close>

definition six_trades :: trades_table where
  "six_trades =
     \<lparr> rows = [row_of 1 ''Y'' ''s1'' 101, row_of 2 ''X'' ''s2'' 102, row_of 3 ''X'' ''s3'' 103,
               row_of 4 ''X'' ''s4'' 104, row_of 5 ''X'' ''s5'' 105, row_of 6 ''X'' ''s6'' 106],
       seq = 6 \<rparr>"






text \<open>
  A trade of a KOL named \<open>constructor\<close> is never kept, and a page size whose tenfold is
  beyond the 64-bit integers is answered with 500.
\<close>

lemma inherited_key_dropped:
  "trades_feed (Some 3) \<lparr> rows = [row_of 1 ''constructor'' ''s1'' 101], seq = 1 \<rparr> no_cache
     = Trades []"
  by code_simp

lemma oversized_limit_fails:
  "trades_feed (Some 1000000000000000000) six_trades no_cache = Failed500"
  by code_simp


section \<open>Regular expressions of the classifier\<close>

text \<open>
  Both patterns of the classifier are sequences of items, each a character class taken
  once or one or more times (\<open>+\<close>, greedy), some of the latter inside a capture group.
  Matching backtracks: a \<open>+\<close> item first takes the longest run and gives characters
  back one at a time until the rest of the pattern matches.
\<close>

datatype re_item = Once "char \<Rightarrow> bool" | Plus "char \<Rightarrow> bool" bool

fun try_down :: "(nat \<Rightarrow> 'a option) \<Rightarrow> nat \<Rightarrow> 'a option" where
  "try_down f 0 = None"
| "try_down f (Suc n) = (case f (Suc n) of Some r \<Rightarrow> Some r | None \<Rightarrow> try_down f n)"

fun match_items :: "re_item list \<Rightarrow> string \<Rightarrow> string list option" where
  "match_items [] s = Some []"
| "match_items (Once p # r) s =
     (case s of [] \<Rightarrow> None | c # cs \<Rightarrow> if p c then match_items r cs else None)"
| "match_items (Plus p cap # r) s =
     try_down
       (\<lambda>n. map_option (\<lambda>caps. if cap then take n s # caps else caps)
                         (match_items r (drop n s)))
       (length (takeWhile p s))"

text \<open>\<open>s.match(re)\<close> without the \<open>g\<close> flag: the first position with a match wins.\<close>

fun re_search :: "re_item list \<Rightarrow> string \<Rightarrow> string list option" where
  "re_search its [] = match_items its []"
| "re_search its (c # cs) =
     (case match_items its (c # cs) of Some caps \<Rightarrow> Some caps | None \<Rightarrow> re_search its cs)"

definition isSpace :: "char \<Rightarrow> bool" where
  "isSpace c = (of_char c \<in> set [9, 10, 11, 12, 13, 32, 160 :: nat])"

definition isDigit :: "char \<Rightarrow> bool" where
  "isDigit c = (c \<in> set ''0123456789'')"

definition isAmountChar :: "char \<Rightarrow> bool" where
  "isAmountChar c = (isDigit c \<or> c = CHR '','' \<or> c = CHR ''.'')"

text \<open>A letter of the pattern under the \<open>i\<close> flag.\<close>

definition ci :: "char \<Rightarrow> char \<Rightarrow> bool" where
  "ci l c = (toUpperChar c = toUpperChar l)"

text \<open>
  \<open>/swapped\s+([\d,.]+)\s+(\S+)\s+for\s+([\d,.]+)\s+(\S+)/i\<close>; in the helper
  \<open>symbolFromDescription\<close> the two amounts are not captured.
\<close>

definition swap_pattern :: "bool \<Rightarrow> re_item list" where
  "swap_pattern amounts =
     map (\<lambda>l. Once (ci l)) ''swapped''
     @ [Plus isSpace False, Plus isAmountChar amounts, Plus isSpace False,
        Plus (\<lambda>c. \<not> isSpace c) True, Plus isSpace False]
     @ map (\<lambda>l. Once (ci l)) ''for''
     @ [Plus isSpace False, Plus isAmountChar amounts, Plus isSpace False,
        Plus (\<lambda>c. \<not> isSpace c) True]"

section \<open>Numbers in text\<close>

fun digits_value :: "nat \<Rightarrow> string \<Rightarrow> nat" where
  "digits_value acc [] = acc"
| "digits_value acc (c # cs) = digits_value (10 * acc + (of_char c - 48)) cs"

text \<open>
  \<open>parseFloat\<close> on a string of digits and dots, which is all that can reach it here:
  the longest prefix of the form digits, dot, digits; \<open>NaN\<close> when that has no digit.
\<close>

definition parseFloat :: "string \<Rightarrow> jsnum" where
  "parseFloat s =
     (let ip = takeWhile isDigit s;
          fp = (case dropWhile isDigit s of
                  [] \<Rightarrow> []
                | c # r \<Rightarrow> if c = CHR ''.'' then takeWhile isDigit r else [])
      in if ip = [] \<and> fp = [] then NaN
         else Num (real (digits_value 0 ip) + real (digits_value 0 fp) / 10 ^ length fp))"

text \<open>\<open>s.replace(/,/g, '')\<close>.\<close>

definition strip_commas :: "string \<Rightarrow> string" where
  "strip_commas s = filter (\<lambda>c. c \<noteq> CHR '','') s"

text \<open>\<open>parseFloat(x.toFixed(4))\<close>: \<open>x\<close> rounded to four decimals, halves away from 0.\<close>

definition toFixed4 :: "real \<Rightarrow> real" where
  "toFixed4 x =
     (if x < 0 then - (of_int \<lfloor>- x * 10000 + 1 / 2\<rfloor> / 10000)
      else of_int \<lfloor>x * 10000 + 1 / 2\<rfloor> / 10000)"

text \<open>\<open>a || b\<close> on strings that may be missing, and \<open>x || d\<close> on a parsed number.\<close>

definition or_str :: "string option \<Rightarrow> string option \<Rightarrow> string option" where
  "or_str a b = (if truthy_str a then a else b)"

fun jsnum_or :: "jsnum \<Rightarrow> real \<Rightarrow> real" where
  "jsnum_or NaN d = d"
| "jsnum_or (Num x) d = (if x = 0 then d else x)"

section \<open>The classifier\<close>

definition NON_TRADE_TYPES :: "string list" where
  "NON_TRADE_TYPES =
     [''TRANSFER'', ''BURN'', ''BURN_NFT'', ''COMPRESSED_NFT_MINT'',
      ''COMPRESSED_NFT_TRANSFER'', ''COMPRESSED_NFT_BURN'',
      ''NFT_MINT'', ''NFT_SALE'', ''NFT_LISTING'', ''NFT_CANCEL_LISTING'',
      ''STAKE'', ''UNSTAKE'', ''INIT_BANK'', ''SET_BANK_FLAGS'',
      ''CLOSE_POSITION'', ''WITHDRAW'', ''DEPOSIT'']"

text \<open>The two early returns at the head of \<open>parseTransaction\<close>.\<close>

definition nonTradeType :: "raw_tx \<Rightarrow> bool" where
  "nonTradeType tx =
     (case txType tx of
        None \<Rightarrow> False
      | Some ty \<Rightarrow> ty \<noteq> [] \<and> ty \<in> set NON_TRADE_TYPES)"

definition plainTransfer :: "raw_tx \<Rightarrow> bool" where
  "plainTransfer tx =
     (case description tx of
        None \<Rightarrow> False
      | Some desc \<Rightarrow>
          if desc = [] then False
          else (let d = toLowerCase desc in
                if includes_str d '' transferred '' \<and> \<not> includes_str d ''swap'' then True
                else if startsWith d ''burned '' \<or> startsWith d ''close ''
                        \<or> startsWith d ''staked '' then True
                else False))"

text \<open>\<open>primaryMint\<close> and \<open>primaryTokenAmount\<close>: the first transfer of a mint other than SOL.\<close>

definition primaryTransfer :: "raw_tx \<Rightarrow> string \<times> real" where
  "primaryTransfer tx =
     (case tokenTransfers tx of
        None \<Rightarrow> ([], 0)
      | Some tts \<Rightarrow>
          (case List.find (\<lambda>t. truthy_str (tt_mint t) \<and> tt_mint t \<noteq> Some SOL_MINT) tts of
             None \<Rightarrow> ([], 0)
           | Some t \<Rightarrow> (str_or (tt_mint t) [], \<bar>num_or (tt_tokenAmount t) 0\<bar>)))"

definition symbolFromDescription :: "raw_tx \<Rightarrow> string option" where
  "symbolFromDescription tx =
     (case description tx of
        None \<Rightarrow> None
      | Some desc \<Rightarrow>
          if desc = [] then None
          else (case re_search (swap_pattern False) desc of
                  Some [tok1, tok2] \<Rightarrow> Some (if toUpperCase tok1 = ''SOL'' then tok2 else tok1)
                | _ \<Rightarrow> None))"

text \<open>The token amount of a leg of the swap event.\<close>

definition legAmount :: "swap_token \<Rightarrow> real \<Rightarrow> real" where
  "legAmount t primaryTokenAmount =
     \<bar>case rawTokenAmount t of
         None \<Rightarrow> num_or (st_tokenAmount t) primaryTokenAmount
       | Some raw \<Rightarrow>
           (case raw_tokenAmount raw of
              None \<Rightarrow> num_or (st_tokenAmount t) primaryTokenAmount
            | Some a \<Rightarrow>
                if a = 0 then num_or (st_tokenAmount t) primaryTokenAmount
                else a / 10 ^ (case decimals raw of None \<Rightarrow> 0 | Some d \<Rightarrow> d))\<bar>"

definition nativePositive :: "native_leg option \<Rightarrow> real option" where
  "nativePositive leg =
     (case leg of
        None \<Rightarrow> None
      | Some n \<Rightarrow> (case amount n of None \<Rightarrow> None | Some a \<Rightarrow> if a > 0 then Some a else None))"

text \<open>Strategy 0, the assignments inside \<open>if (swap)\<close> before its test.\<close>

definition strategy0 ::
  "raw_tx \<Rightarrow> metadata_map option \<Rightarrow> token_cache \<Rightarrow> swap_event \<Rightarrow> trade \<Rightarrow> trade" where
  "strategy0 tx tokenMetadataMap cache sw result =
     (let primaryMint = fst (primaryTransfer tx);
          primaryTokenAmount = snd (primaryTransfer tx);
          tokenIn = (case tokenInputs sw of None \<Rightarrow> None
                     | Some ts \<Rightarrow> List.find (\<lambda>t. st_mint t \<noteq> Some SOL_MINT) ts);
          tokenOut = (case tokenOutputs sw of None \<Rightarrow> None
                      | Some ts \<Rightarrow> List.find (\<lambda>t. st_mint t \<noteq> Some SOL_MINT) ts)
      in case (nativePositive (nativeInput sw), tokenOut) of
           (Some a, Some tout) \<Rightarrow>
             (let m = str_or (st_mint tout) primaryMint in
              result\<lparr> action := Some ''Buy'',
                      amountSol := Num (toFixed4 (a / 10 ^ 9)),
                      tokenMint := m,
                      tokenAmount := legAmount tout primaryTokenAmount,
                      tokenSymbol := or_str (resolveSymbol tokenMetadataMap cache m)
                                            (symbolFromDescription tx) \<rparr>)
         | _ \<Rightarrow>
             (case (nativePositive (nativeOutput sw), tokenIn) of
                (Some a, Some tin) \<Rightarrow>
                  (let m = str_or (st_mint tin) primaryMint in
                   result\<lparr> action := Some ''Sell'',
                           amountSol := Num (toFixed4 (a / 10 ^ 9)),
                           tokenMint := m,
                           tokenAmount := legAmount tin primaryTokenAmount,
                           tokenSymbol := or_str (resolveSymbol tokenMetadataMap cache m)
                                                 (symbolFromDescription tx) \<rparr>)
              | _ \<Rightarrow> result))"

text \<open>The test \<open>result.action && result.amountSol > 0 && result.tokenSymbol\<close>.\<close>

definition conclusive :: "trade \<Rightarrow> bool" where
  "conclusive result =
     (truthy_str (action result) \<and> js_gt (amountSol result) 0 \<and> truthy_str (tokenSymbol result))"

text \<open>The mint of Strategy 1: \<open>primaryMint\<close>, else the first entry of the map with the symbol.\<close>

definition mintBySymbol :: "metadata_map option \<Rightarrow> string \<Rightarrow> string \<Rightarrow> string" where
  "mintBySymbol tokenMetadataMap primaryMint smb =
     (if primaryMint \<noteq> [] then primaryMint
      else (case tokenMetadataMap of
              None \<Rightarrow> primaryMint
            | Some entries \<Rightarrow>
                (case List.find (\<lambda>e. case snd e of None \<Rightarrow> False
                                       | Some meta \<Rightarrow> symbol meta = smb) entries of
                   None \<Rightarrow> primaryMint
                 | Some e \<Rightarrow> fst e)))"

text \<open>Strategy 1, the body of \<open>if (swapMatch)\<close>; \<open>None\<close> is \<open>return null\<close>.\<close>

definition strategy1 ::
  "raw_tx \<Rightarrow> metadata_map option \<Rightarrow> string list \<Rightarrow> trade \<Rightarrow> trade option" where
  "strategy1 tx tokenMetadataMap swapMatch result =
     (case swapMatch of
        [amt1, tok1, amt2, tok2] \<Rightarrow>
          (let primaryMint = fst (primaryTransfer tx);
               primaryTokenAmount = snd (primaryTransfer tx)
           in if toUpperCase tok1 = ''SOL''
              then Some (result\<lparr> action := Some ''Buy'',
                                 tokenSymbol := Some tok2,
                                 amountSol := parseFloat (strip_commas amt1),
                                 tokenAmount := jsnum_or (parseFloat (strip_commas amt2))
                                                  primaryTokenAmount,
                                 tokenMint := mintBySymbol tokenMetadataMap primaryMint tok2 \<rparr>)
              else if toUpperCase tok2 = ''SOL''
              then Some (result\<lparr> action := Some ''Sell'',
                                 tokenSymbol := Some tok1,
                                 amountSol := parseFloat (strip_commas amt2),
                                 tokenAmount := jsnum_or (parseFloat (strip_commas amt1))
                                                  primaryTokenAmount,
                                 tokenMint := mintBySymbol tokenMetadataMap primaryMint tok1 \<rparr>)
              else None)
      | _ \<Rightarrow> None)"

text \<open>The two loops of Strategy 2: lamports out of and into the wallet, and the largest
  token transfer into and out of it.\<close>

fun solFlows :: "string \<Rightarrow> native_transfer list \<Rightarrow> real \<times> real \<Rightarrow> real \<times> real" where
  "solFlows w [] (solOut, solIn) = (solOut, solIn)"
| "solFlows w (nt # rest) (solOut, solIn) =
     solFlows w rest
       (if nt_fromUserAccount nt = Some w then solOut + num_or (nt_amount nt) 0 else solOut,
        if nt_toUserAccount nt = Some w then solIn + num_or (nt_amount nt) 0 else solIn)"

definition larger :: "string \<Rightarrow> real \<Rightarrow> (string \<times> real) option \<Rightarrow> (string \<times> real) option" where
  "larger m amt info =
     (case info of
        None \<Rightarrow> Some (m, amt)
      | Some i \<Rightarrow> if amt > snd i then Some (m, amt) else info)"

fun tokenFlows ::
  "string \<Rightarrow> token_transfer list \<Rightarrow> (string \<times> real) option \<times> (string \<times> real) option
     \<Rightarrow> (string \<times> real) option \<times> (string \<times> real) option" where
  "tokenFlows w [] (tokenInInfo, tokenOutInfo) = (tokenInInfo, tokenOutInfo)"
| "tokenFlows w (tt # rest) (tokenInInfo, tokenOutInfo) =
     (case tt_mint tt of
        None \<Rightarrow> tokenFlows w rest (tokenInInfo, tokenOutInfo)
      | Some m \<Rightarrow>
          if m = [] \<or> m = SOL_MINT then tokenFlows w rest (tokenInInfo, tokenOutInfo)
          else (let amt = \<bar>num_or (tt_tokenAmount tt) 0\<bar> in
                if amt = 0 then tokenFlows w rest (tokenInInfo, tokenOutInfo)
                else tokenFlows w rest
                       (if tt_toUserAccount tt = Some w then larger m amt tokenInInfo
                        else tokenInInfo,
                        if tt_fromUserAccount tt = Some w then larger m amt tokenOutInfo
                        else tokenOutInfo)))"

text \<open>Strategy 2 with the final \<open>return null\<close>.\<close>

definition strategy2 ::
  "raw_tx \<Rightarrow> string \<Rightarrow> metadata_map option \<Rightarrow> token_cache \<Rightarrow> trade \<Rightarrow> trade option" where
  "strategy2 tx walletAddress tokenMetadataMap cache result =
     (case (nativeTransfers tx, tokenTransfers tx) of
        (Some nts, Some tts) \<Rightarrow>
          if tts = [] then None
          else
            (let flows = solFlows walletAddress nts (0, 0);
                 solOut = fst flows;
                 solIn = snd flows;
                 infos = tokenFlows walletAddress tts (None, None);
                 netSolSpent = (solOut - solIn) / 10 ^ 9;
                 netSolGained = (solIn - solOut) / 10 ^ 9;
                 result' =
                   (case infos of
                      (Some tin, None) \<Rightarrow>
                        if netSolSpent > 1 / 1000
                        then result\<lparr> action := Some ''Buy'',
                                     amountSol := Num (toFixed4 netSolSpent),
                                     tokenMint := fst tin, tokenAmount := snd tin \<rparr>
                        else result
                    | (None, Some tout) \<Rightarrow>
                        if netSolGained > 1 / 1000
                        then result\<lparr> action := Some ''Sell'',
                                     amountSol := Num (toFixed4 netSolGained),
                                     tokenMint := fst tout, tokenAmount := snd tout \<rparr>
                        else result
                    | _ \<Rightarrow> result)
             in if truthy_str (action result') \<and> js_gt (amountSol result') 0
                then (let smb = or_str (resolveSymbol tokenMetadataMap cache (tokenMint result'))
                                       (symbolFromDescription tx)
                      in if truthy_str smb then Some (result'\<lparr> tokenSymbol := smb \<rparr>) else None)
                else None)
      | _ \<Rightarrow> None)"

text \<open>
  \<open>parseTransaction\<close>. The token cache that \<open>resolveSymbol\<close> reads is the last parameter.
\<close>

definition parseTransaction ::
  "raw_tx \<Rightarrow> string option \<Rightarrow> string option \<Rightarrow> string \<Rightarrow> metadata_map option \<Rightarrow> token_cache
     \<Rightarrow> trade option" where
  "parseTransaction tx kolName' kolAvatar' walletAddress tokenMetadataMap cache =
     (let result = \<lparr> signature = txSignature tx, timestamp = txTimestamp tx,
                      kolName = str_or kolName' ''Unknown'',
                      kolAvatar = str_or kolAvatar' ''/logo.png'',
                      action = None, tokenSymbol = None, tokenMint = [], tokenAmount = 0,
                      amountSol = Num 0 \<rparr>
      in if nonTradeType tx then None
         else if plainTransfer tx then None
         else
           (let result0 = (case events_swap tx of
                             None \<Rightarrow> result
                           | Some sw \<Rightarrow> strategy0 tx tokenMetadataMap cache sw result)
            in if events_swap tx \<noteq> None \<and> conclusive result0 then Some result0
               else (case (case description tx of None \<Rightarrow> None
                           | Some desc \<Rightarrow> re_search (swap_pattern True) desc) of
                       Some swapMatch \<Rightarrow> strategy1 tx tokenMetadataMap swapMatch result0
                     | None \<Rightarrow> strategy2 tx walletAddress tokenMetadataMap cache result0)))"

section \<open>Properties of the classifier\<close>

fun captures :: "re_item \<Rightarrow> bool" where
  "captures (Once p) = False"
| "captures (Plus p cap) = cap"

lemma try_down_Some:
  "try_down f n = Some x \<Longrightarrow> \<exists>k. 0 < k \<and> k \<le> n \<and> f k = Some x"
proof (induction n)
  case 0
  then show ?case by simp
next
  case (Suc n)
  show ?case
  proof (cases "f (Suc n)")
    case None
    with Suc obtain k where "0 < k" "k \<le> n" "f k = Some x" by auto
    then show ?thesis by (intro exI [of _ k]) simp
  next
    case (Some y)
    with Suc.prems have "f (Suc n) = Some x" by simp
    then show ?thesis by (intro exI [of _ "Suc n"]) simp
  qed
qed

lemma match_items_captures:
  "match_items its s = Some caps
     \<Longrightarrow> length caps = length (filter captures its) \<and> (\<forall>c \<in> set caps. c \<noteq> [])"
proof (induction its arbitrary: s caps)
  case Nil
  then show ?case by simp
next
  case (Cons it its)
  show ?case
  proof (cases it)
    case (Once p)
    with Cons.prems obtain c cs where "s = c # cs" "match_items its cs = Some caps"
      by (auto split: list.splits if_splits)
    with Cons.IH Once show ?thesis by simp
  next
    case (Plus p cap)
    let ?f = "\<lambda>n. map_option (\<lambda>caps. if cap then take n s # caps else caps)
                               (match_items its (drop n s))"
    from Cons.prems Plus have "try_down ?f (length (takeWhile p s)) = Some caps"
      by simp
    then obtain k where k: "0 < k" "k \<le> length (takeWhile p s)" "?f k = Some caps"
      by (blast dest: try_down_Some)
    then obtain caps' where caps':
      "match_items its (drop k s) = Some caps'"
      "caps = (if cap then take k s # caps' else caps')"
      by auto
    have "length (takeWhile p s) \<le> length s"
      by (rule length_takeWhile_le)
    with k have "take k s \<noteq> []" by auto
    with Cons.IH [OF caps'(1)] caps'(2) Plus show ?thesis by auto
  qed
qed

lemma re_search_captures:
  "re_search its s = Some caps
     \<Longrightarrow> length caps = length (filter captures its) \<and> (\<forall>c \<in> set caps. c \<noteq> [])"
proof (induction s)
  case Nil
  then show ?case by (simp add: match_items_captures)
next
  case (Cons c cs)
  show ?case
  proof (cases "match_items its (c # cs)")
    case None
    with Cons show ?thesis by simp
  next
    case (Some caps')
    with Cons.prems have "match_items its (c # cs) = Some caps" by simp
    then show ?thesis by (rule match_items_captures)
  qed
qed

lemma swap_pattern_captures:
  "length (filter captures (swap_pattern True)) = 4"
  "length (filter captures (swap_pattern False)) = 2"
  by (simp_all add: swap_pattern_def)

lemma swapMatch_four:
  assumes "re_search (swap_pattern True) d = Some caps"
  shows "\<exists>amt1 tok1 amt2 tok2. caps = [amt1, tok1, amt2, tok2] \<and> tok1 \<noteq> [] \<and> tok2 \<noteq> []"
proof -
  from re_search_captures [OF assms]
  have len: "length caps = 4" and ne: "\<forall>c \<in> set caps. c \<noteq> []"
    by (simp_all add: swap_pattern_captures)
  from len obtain a b c d where "caps = [a, b, c, d]"
    by (auto simp: length_Suc_conv eval_nat_numeral)
  with ne show ?thesis by simp
qed

lemma symbolFromDescription_nonempty:
  "symbolFromDescription tx = Some s \<Longrightarrow> s \<noteq> []"
proof -
  assume a: "symbolFromDescription tx = Some s"
  then obtain d caps where d: "description tx = Some d" "re_search (swap_pattern False) d = Some caps"
    by (auto simp: symbolFromDescription_def split: option.splits if_splits)
  from re_search_captures [OF d(2)]
  have len: "length caps = 2" and ne: "\<forall>c \<in> set caps. c \<noteq> []"
    by (simp_all add: swap_pattern_captures)
  from len obtain t1 t2 where "caps = [t1, t2]"
    by (auto simp: length_Suc_conv eval_nat_numeral)
  with a d ne show ?thesis
    by (auto simp: symbolFromDescription_def split: if_splits)
qed

lemma truthy_str_Some: "truthy_str a \<Longrightarrow> \<exists>s. a = Some s \<and> s \<noteq> []"
  by (cases a) auto

lemma strategy0_action:
  assumes "action result = None"
  shows "action (strategy0 tx tm cache sw result) = None
         \<or> action (strategy0 tx tm cache sw result) = Some ''Buy''
         \<or> action (strategy0 tx tm cache sw result) = Some ''Sell''"
  using assms
  by (simp add: strategy0_def Let_def split: option.splits prod.splits)

lemma strategy1_result:
  assumes "strategy1 tx tm [amt1, tok1, amt2, tok2] result = Some r"
    and "tok1 \<noteq> []" and "tok2 \<noteq> []"
  shows "(action r = Some ''Buy'' \<or> action r = Some ''Sell'')
         \<and> (\<exists>s. tokenSymbol r = Some s \<and> s \<noteq> [])
         \<and> amountSol r
             = parseFloat (strip_commas (if toUpperCase tok1 = ''SOL'' then amt1 else amt2))"
  using assms
  by (auto simp: strategy1_def Let_def split: if_splits)

lemma truthy_str_iff: "truthy_str a = (\<exists>s. a = Some s \<and> s \<noteq> [])"
  by (cases a) auto

lemma strategy2_result:
  assumes "strategy2 tx w tm cache result = Some r"
    and "action result = None \<or> action result = Some ''Buy'' \<or> action result = Some ''Sell''"
  shows "(action r = Some ''Buy'' \<or> action r = Some ''Sell'')
         \<and> (\<exists>s. tokenSymbol r = Some s \<and> s \<noteq> [])
         \<and> js_gt (amountSol r) 0"
  using assms unfolding strategy2_def Let_def
  by (auto simp: truthy_str_iff split: option.splits prod.splits if_splits)

lemma conclusive_result:
  assumes "conclusive r"
    and "action r = None \<or> action r = Some ''Buy'' \<or> action r = Some ''Sell''"
  shows "(action r = Some ''Buy'' \<or> action r = Some ''Sell'')
         \<and> (\<exists>s. tokenSymbol r = Some s \<and> s \<noteq> [])
         \<and> js_gt (amountSol r) 0"
  using assms truthy_str_Some [of "tokenSymbol r"]
  by (auto simp: conclusive_def)

section \<open>Sample transactions\<close>

definition wif_meta :: "metadata_map option" where
  "wif_meta = Some [(''MintWif'', Some \<lparr> name = ''dogwifhat'', symbol = ''WIF'', image = [] \<rparr>)]"

definition wif_out :: swap_token where
  "wif_out =
     \<lparr> st_mint = Some ''MintWif'',
       rawTokenAmount = Some \<lparr> raw_tokenAmount = Some 1000000, decimals = Some 6 \<rparr>,
       st_tokenAmount = None \<rparr>"

definition swap_buy :: swap_event where
  "swap_buy =
     \<lparr> nativeInput = Some \<lparr> amount = Some 1500000000 \<rparr>, nativeOutput = None,
       tokenInputs = None, tokenOutputs = Some [wif_out] \<rparr>"

definition buy_tx :: "string option \<Rightarrow> string option \<Rightarrow> raw_tx" where
  "buy_tx ty desc =
     \<lparr> txSignature = Some ''sigBuy'', txTimestamp = Some 1700000000, txType = ty,
       description = desc, tokenTransfers = None, nativeTransfers = None,
       events_swap = Some swap_buy \<rparr>"

definition text_tx :: "string \<Rightarrow> raw_tx" where
  "text_tx desc =
     \<lparr> txSignature = Some ''sigText'', txTimestamp = Some 1700000000, txType = Some ''SWAP'',
       description = Some desc, tokenTransfers = None, nativeTransfers = None,
       events_swap = None \<rparr>"

definition bought_wif :: trade where
  "bought_wif =
     \<lparr> signature = Some ''sigBuy'', timestamp = Some 1700000000, kolName = ''Ansem'',
       kolAvatar = ''/logo.png'', action = Some ''Buy'', tokenSymbol = Some ''WIF'',
       tokenMint = ''MintWif'', tokenAmount = 1, amountSol = Num 1.5 \<rparr>"

lemma buy_tx_parsed:
  "parseTransaction (buy_tx (Some ''SWAP'') None) (Some ''Ansem'') None ''WalletA'' wif_meta
     no_cache = Some bought_wif"
  by code_simp

section \<open>What the classifier returns\<close>

text \<open>
  Every trade that the classifier returns has the action Buy or Sell and a non-empty
  token symbol. Strategies 0 and 2 return it only after the test \<open>amountSol > 0\<close>
  (lemmas \<open>conclusive_result\<close> and \<open>strategy2_result\<close>); Strategy 1 returns without that
  test, with the number that the amount on the SOL side of the text parses to.
\<close>

lemma parseTransaction_returns:
  assumes "parseTransaction tx kn ka w tm cache = Some r"
  shows "(action r = Some ''Buy'' \<or> action r = Some ''Sell'')
         \<and> (\<exists>s. tokenSymbol r = Some s \<and> s \<noteq> [])
         \<and> (js_gt (amountSol r) 0
            \<or> (\<exists>d amt1 tok1 amt2 tok2.
                  description tx = Some d
                  \<and> re_search (swap_pattern True) d = Some [amt1, tok1, amt2, tok2]
                  \<and> amountSol r
                      = parseFloat (strip_commas
                          (if toUpperCase tok1 = ''SOL'' then amt1 else amt2))))"
proof -
  define result where
    "result = \<lparr> signature = txSignature tx, timestamp = txTimestamp tx,
                 kolName = str_or kn ''Unknown'', kolAvatar = str_or ka ''/logo.png'',
                 action = None, tokenSymbol = None, tokenMint = [], tokenAmount = 0,
                 amountSol = Num 0 \<rparr>"
  define result0 where
    "result0 = (case events_swap tx of None \<Rightarrow> result
                | Some sw \<Rightarrow> strategy0 tx tm cache sw result)"
  define swapMatch where
    "swapMatch = (case description tx of None \<Rightarrow> None
                  | Some desc \<Rightarrow> re_search (swap_pattern True) desc)"
  have act0: "action result0 = None \<or> action result0 = Some ''Buy''
              \<or> action result0 = Some ''Sell''"
  proof (cases "events_swap tx")
    case None
    then show ?thesis by (simp add: result0_def result_def)
  next
    case (Some sw)
    have "action result = None" by (simp add: result_def)
    from strategy0_action [OF this, of tx tm cache sw] Some show ?thesis
      by (simp add: result0_def)
  qed
  from assms have cases:
    "(events_swap tx \<noteq> None \<and> conclusive result0 \<and> r = result0)
     \<or> (\<exists>caps. swapMatch = Some caps \<and> strategy1 tx tm caps result0 = Some r)
     \<or> (swapMatch = None \<and> strategy2 tx w tm cache result0 = Some r)"
    unfolding parseTransaction_def result_def [symmetric] Let_def result0_def [symmetric]
      swapMatch_def [symmetric]
    by (auto split: if_splits option.splits)
  then consider
    (s0) "conclusive result0" "r = result0"
    | (s1) caps where "swapMatch = Some caps" "strategy1 tx tm caps result0 = Some r"
    | (s2) "strategy2 tx w tm cache result0 = Some r"
    by blast
  then show ?thesis
  proof cases
    case s0
    with conclusive_result [OF s0(1) act0] show ?thesis by simp
  next
    case s1
    from s1(1) obtain d where d: "description tx = Some d"
      "re_search (swap_pattern True) d = Some caps"
      by (auto simp: swapMatch_def split: option.splits)
    from swapMatch_four [OF d(2)] obtain amt1 tok1 amt2 tok2 where
      c: "caps = [amt1, tok1, amt2, tok2]" "tok1 \<noteq> []" "tok2 \<noteq> []"
      by blast
    from strategy1_result [OF s1(2) [unfolded c(1)] c(2,3)] d c(1) show ?thesis
      by blast
  next
    case s2
    from strategy2_result [OF s2 act0] show ?thesis by simp
  qed
qed

text \<open>
  Claim C1. The code breaks it in Strategy 1, which ends in \<open>return result\<close> without the
  test on the SOL amount that Strategies 0 and 2 make. A description that reads
  \<open>swapped 0 SOL for 5 WIF\<close> is returned as a purchase with the SOL amount 0; with a lone
  dot for the amount the SOL amount is \<open>NaN\<close>, which \<open>isValidTrade\<close> lets through.
\<close>

theorem parseTransaction_strategy1_amount:
  "parseTransaction (text_tx ''Ansem swapped 0 SOL for 5 WIF'') (Some ''Ansem'') None
     ''WalletA'' wif_meta no_cache
     = Some \<lparr> signature = Some ''sigText'', timestamp = Some 1700000000, kolName = ''Ansem'',
              kolAvatar = ''/logo.png'', action = Some ''Buy'', tokenSymbol = Some ''WIF'',
              tokenMint = ''MintWif'', tokenAmount = 5, amountSol = Num 0 \<rparr>
   \<and> \<not> js_gt (Num 0) 0
   \<and> parseTransaction (text_tx ''Ansem swapped . SOL for 5 WIF'') (Some ''Ansem'') None
       ''WalletA'' wif_meta no_cache
       = Some \<lparr> signature = Some ''sigText'', timestamp = Some 1700000000, kolName = ''Ansem'',
                kolAvatar = ''/logo.png'', action = Some ''Buy'', tokenSymbol = Some ''WIF'',
                tokenMint = ''MintWif'', tokenAmount = 5, amountSol = NaN \<rparr>
   \<and> \<not> js_gt NaN 0"
  by code_simp

text \<open>The trade with the amount \<open>NaN\<close> passes the validity filter and is stored.\<close>

lemma nan_amount_persisted:
  "isValidTrade
     (parseTransaction (text_tx ''Ansem swapped . SOL for 5 WIF'') (Some ''Ansem'') None
        ''WalletA'' wif_meta no_cache)
   \<and> persistTrade ''WalletA''
       (parseTransaction (text_tx ''Ansem swapped . SOL for 5 WIF'') (Some ''Ansem'') None
          ''WalletA'' wif_meta no_cache)
       empty_trades
     = \<lparr> rows = [\<lparr> row_id = 1, wallet = ''WalletA'', kol_name = ''Ansem'',
                    kol_avatar = ''/logo.png'', row_action = ''Buy'', token_symbol = ''WIF'',
                    amount_sol = None, row_signature = Some ''sigText'',
                    tx_timestamp = 1700000000, token_mint = ''MintWif'',
                    token_amount = Some 5 \<rparr>],
         seq = 1 \<rparr>"
  by code_simp

section \<open>The structured swap event\<close>

text \<open>
  Claim C2 as stated fails: a transaction whose declared type is \<open>TRANSFER\<close> is dropped
  by the pre-filter though it carries the swap event and its token resolves to \<open>WIF\<close>.
\<close>

theorem parseTransaction_swap_counterexample:
  "events_swap (buy_tx (Some ''TRANSFER'') None) = Some swap_buy
   \<and> resolveSymbol wif_meta no_cache ''MintWif'' = Some ''WIF''
   \<and> parseTransaction (buy_tx (Some ''TRANSFER'') None) (Some ''Ansem'') None ''WalletA''
        wif_meta no_cache = None"
  by code_simp

text \<open>
  Claim C2, amended. For every transaction that passes the pre-filter and carries a swap
  event whose native input is 1500000000 lamports and whose first token output of a mint
  other than SOL has 1000000 raw units at 6 decimals, given that the symbol of that
  token resolves (from the metadata map, the cache or the description), the classifier
  returns a trade with action Buy, SOL amount 1.5, token amount 1 and that symbol.
\<close>

theorem parseTransaction_swap_buy:
  assumes "\<not> nonTradeType tx" and "\<not> plainTransfer tx"
    and "events_swap tx = Some sw"
    and "nativeInput sw = Some n" and "amount n = Some 1500000000"
    and "tokenOutputs sw = Some outs"
    and "List.find (\<lambda>t. st_mint t \<noteq> Some SOL_MINT) outs = Some tout"
    and "rawTokenAmount tout = Some raw"
    and "raw_tokenAmount raw = Some 1000000" and "decimals raw = Some 6"
    and "or_str (resolveSymbol tm cache (str_or (st_mint tout) (fst (primaryTransfer tx))))
           (symbolFromDescription tx) = Some smb"
    and "smb \<noteq> []"
  shows "\<exists>r. parseTransaction tx kn ka w tm cache = Some r
             \<and> action r = Some ''Buy'' \<and> amountSol r = Num 1.5 \<and> tokenAmount r = 1
             \<and> tokenSymbol r = Some smb"
proof -
  have a: "toFixed4 (1500000000 / 10 ^ 9) = 1.5"
    by (simp add: toFixed4_def)
  have b: "legAmount tout p = 1" for p
    using assms(8-10) by (simp add: legAmount_def)
  have c: "nativePositive (nativeInput sw) = Some 1500000000"
    using assms(4,5) by (simp add: nativePositive_def)
  define result where
    "result = \<lparr> signature = txSignature tx, timestamp = txTimestamp tx,
                 kolName = str_or kn ''Unknown'', kolAvatar = str_or ka ''/logo.png'',
                 action = None, tokenSymbol = None, tokenMint = [], tokenAmount = 0,
                 amountSol = Num 0 \<rparr>"
  have s0: "strategy0 tx tm cache sw result
              = result\<lparr> action := Some ''Buy'', amountSol := Num 1.5,
                        tokenMint := str_or (st_mint tout) (fst (primaryTransfer tx)),
                        tokenAmount := 1, tokenSymbol := Some smb \<rparr>"
    using assms(6,7,11) a b c by (simp add: strategy0_def Let_def)
  have "conclusive (strategy0 tx tm cache sw result)"
    unfolding s0 using assms(12) by (simp add: conclusive_def)
  then have "parseTransaction tx kn ka w tm cache = Some (strategy0 tx tm cache sw result)"
    using assms(1-3)
    by (simp add: parseTransaction_def Let_def result_def [symmetric])
  then show ?thesis
    unfolding s0 by simp
qed

theorem parseTransaction_swap_buy_witness:
  "\<not> nonTradeType (buy_tx (Some ''SWAP'') None)
   \<and> \<not> plainTransfer (buy_tx (Some ''SWAP'') None)
   \<and> or_str (resolveSymbol wif_meta no_cache ''MintWif'')
        (symbolFromDescription (buy_tx (Some ''SWAP'') None)) = Some ''WIF''
   \<and> (\<exists>r. parseTransaction (buy_tx (Some ''SWAP'') None) (Some ''Ansem'') None ''WalletA''
             wif_meta no_cache = Some r
           \<and> action r = Some ''Buy'' \<and> amountSol r = Num 1.5 \<and> tokenAmount r = 1
           \<and> tokenSymbol r = Some ''WIF'')"
proof -
  let ?tx = "buy_tx (Some ''SWAP'') None"
  have h1: "\<not> nonTradeType ?tx" by code_simp
  have h2: "\<not> plainTransfer ?tx" by code_simp
  have h3: "events_swap ?tx = Some swap_buy" by (simp add: buy_tx_def)
  have h4: "nativeInput swap_buy = Some \<lparr> amount = Some 1500000000 \<rparr>"
    by (simp add: swap_buy_def)
  have h5: "amount \<lparr> amount = Some 1500000000 \<rparr> = Some 1500000000" by simp
  have h6: "tokenOutputs swap_buy = Some [wif_out]" by (simp add: swap_buy_def)
  have h7: "List.find (\<lambda>t. st_mint t \<noteq> Some SOL_MINT) [wif_out] = Some wif_out"
    by (simp add: wif_out_def SOL_MINT_def)
  have h8: "rawTokenAmount wif_out = Some \<lparr> raw_tokenAmount = Some 1000000, decimals = Some 6 \<rparr>"
    by (simp add: wif_out_def)
  have h9: "raw_tokenAmount \<lparr> raw_tokenAmount = Some 1000000, decimals = Some 6 \<rparr> = Some 1000000"
    by simp
  have h10: "decimals \<lparr> raw_tokenAmount = Some 1000000, decimals = Some 6 \<rparr> = Some 6"
    by simp
  have m: "str_or (st_mint wif_out) (fst (primaryTransfer ?tx)) = ''MintWif''"
    by (simp add: wif_out_def)
  have h11': "or_str (resolveSymbol wif_meta no_cache ''MintWif'') (symbolFromDescription ?tx)
               = Some ''WIF''"
    by code_simp
  have h11: "or_str (resolveSymbol wif_meta no_cache
                       (str_or (st_mint wif_out) (fst (primaryTransfer ?tx))))
               (symbolFromDescription ?tx) = Some ''WIF''"
    unfolding m by (rule h11')
  have h12: "''WIF'' \<noteq> []" by simp
  from parseTransaction_swap_buy [OF h1 h2 h3 h4 h5 h6 h7 h8 h9 h10 h11 h12,
         of "Some ''Ansem''" None "''WalletA''"]
       h1 h2 h11'
  show ?thesis by (intro conjI)
qed

section \<open>The pre-filter\<close>

text \<open>
  Claim C5 as stated fails: the test on the description looks for \<open>transferred\<close> between
  two spaces and for \<open>burned\<close>, \<open>close\<close>, \<open>staked\<close> followed by a space; a description that
  ends in \<open>transferred\<close>, or is \<open>Burned\<close> alone, passes it, and the swap event is classified.
\<close>

theorem parseTransaction_prefilter_counterexample:
  "includes_str (toLowerCase ''Ansem transferred'') ''transferred''
   \<and> \<not> includes_str (toLowerCase ''Ansem transferred'') ''swap''
   \<and> parseTransaction (buy_tx (Some ''SWAP'') (Some ''Ansem transferred'')) (Some ''Ansem'')
        None ''WalletA'' wif_meta no_cache = Some bought_wif
   \<and> startsWith (toLowerCase ''Burned'') ''burned''
   \<and> parseTransaction (buy_tx (Some ''SWAP'') (Some ''Burned'')) (Some ''Ansem'')
        None ''WalletA'' wif_meta no_cache = Some bought_wif"
  by code_simp

lemma NON_TRADE_TYPES_nonempty: "ty \<in> set NON_TRADE_TYPES \<Longrightarrow> ty \<noteq> []"
  by (auto simp: NON_TRADE_TYPES_def)

text \<open>
  Claim C5, amended. The classifier returns null for every transaction whose declared
  type is in the non-trade set, and for every transaction whose description, in lower
  case, contains \<open>transferred\<close> between two spaces and does not contain \<open>swap\<close>, or starts
  with \<open>burned\<close>, \<open>close\<close> or \<open>staked\<close> followed by a space.
\<close>

theorem parseTransaction_prefilter:
  assumes "(\<exists>ty. txType tx = Some ty \<and> ty \<in> set NON_TRADE_TYPES)
           \<or> (\<exists>d. description tx = Some d
                 \<and> ((includes_str (toLowerCase d) '' transferred ''
                       \<and> \<not> includes_str (toLowerCase d) ''swap'')
                     \<or> startsWith (toLowerCase d) ''burned ''
                     \<or> startsWith (toLowerCase d) ''close ''
                     \<or> startsWith (toLowerCase d) ''staked ''))"
  shows "parseTransaction tx kn ka w tm cache = None"
proof -
  from assms consider
    (ty) ty where "txType tx = Some ty" "ty \<in> set NON_TRADE_TYPES"
    | (d) d where "description tx = Some d"
        "(includes_str (toLowerCase d) '' transferred '' \<and> \<not> includes_str (toLowerCase d) ''swap'')
         \<or> startsWith (toLowerCase d) ''burned '' \<or> startsWith (toLowerCase d) ''close ''
         \<or> startsWith (toLowerCase d) ''staked ''"
    by blast
  then show ?thesis
  proof cases
    case ty
    with NON_TRADE_TYPES_nonempty [OF ty(2)] have "nonTradeType tx"
      by (simp add: nonTradeType_def)
    then show ?thesis by (simp add: parseTransaction_def Let_def)
  next
    case d
    from d(2) have "d \<noteq> []"
      by (auto simp: toLowerCase_def startsWith_def)
    with d have "plainTransfer tx"
      by (auto simp: plainTransfer_def Let_def)
    then show ?thesis by (simp add: parseTransaction_def Let_def)
  qed
qed

theorem parseTransaction_prefilter_witness:
  "txType (buy_tx (Some ''TRANSFER'') None) = Some ''TRANSFER''
   \<and> ''TRANSFER'' \<in> set NON_TRADE_TYPES
   \<and> parseTransaction (buy_tx (Some ''TRANSFER'') None) (Some ''Ansem'') None ''WalletA''
        wif_meta no_cache = None
   \<and> includes_str (toLowerCase ''Ansem transferred 5 SOL to Bob'') '' transferred ''
   \<and> \<not> includes_str (toLowerCase ''Ansem transferred 5 SOL to Bob'') ''swap''
   \<and> parseTransaction (buy_tx (Some ''SWAP'') (Some ''Ansem transferred 5 SOL to Bob''))
        (Some ''Ansem'') None ''WalletA'' wif_meta no_cache = None"
proof -
  have t1: "txType (buy_tx (Some ''TRANSFER'') None) = Some ''TRANSFER''"
    by (simp add: buy_tx_def)
  have t2: "''TRANSFER'' \<in> set NON_TRADE_TYPES"
    by (simp add: NON_TRADE_TYPES_def)
  have d1: "description (buy_tx (Some ''SWAP'') (Some ''Ansem transferred 5 SOL to Bob''))
              = Some ''Ansem transferred 5 SOL to Bob''"
    by (simp add: buy_tx_def)
  have d2: "includes_str (toLowerCase ''Ansem transferred 5 SOL to Bob'') '' transferred ''"
    by code_simp
  have d3: "\<not> includes_str (toLowerCase ''Ansem transferred 5 SOL to Bob'') ''swap''"
    by code_simp
  have a: "parseTransaction (buy_tx (Some ''TRANSFER'') None) (Some ''Ansem'') None ''WalletA''
             wif_meta no_cache = None"
    by (rule parseTransaction_prefilter) (use t1 t2 in blast)
  have b: "parseTransaction (buy_tx (Some ''SWAP'') (Some ''Ansem transferred 5 SOL to Bob''))
             (Some ''Ansem'') None ''WalletA'' wif_meta no_cache = None"
    by (rule parseTransaction_prefilter) (use d1 d2 d3 in blast)
  from t1 t2 a d2 d3 b show ?thesis by (intro conjI)
qed

end
